theory Spec2Isabelle
  imports Complex_Main "HOL-Library.AList"
begin

section \<open>Decoded values\<close>

text \<open>
  The value tree that \<^verbatim>\<open>json.loads\<close> returns: Python's \<^verbatim>\<open>None\<close>, \<^verbatim>\<open>bool\<close>,
  numbers, \<^verbatim>\<open>str\<close>, \<^verbatim>\<open>list\<close> and \<^verbatim>\<open>dict\<close>. A \<^verbatim>\<open>dict\<close> keeps the insertion order of
  its keys, so it is an association list. A number (Python's \<^verbatim>\<open>int\<close> or \<^verbatim>\<open>float\<close>) is
  represented by its exact value; the rounding of binary floating point is not part of
  the model. A \<^verbatim>\<open>str\<close> is a list of 8-bit characters.
\<close>

datatype json =
    JNull
  | JBool bool
  | JNum rat
  | JStr string
  | JArr "json list"
  | JObj "(string \<times> json) list"

type_synonym dict = "(string \<times> json) list"

text \<open>The exceptions that can leave the body of \<^verbatim>\<open>parse_gpt_response\<close>.\<close>

datatype exn = JSONDecodeError | ValidationError | AttributeError | TypeError

text \<open>\<^verbatim>\<open>d.get(k, default)\<close> on a \<^verbatim>\<open>dict\<close>.\<close>

definition get_or :: "dict \<Rightarrow> string \<Rightarrow> json \<Rightarrow> json" where
  "get_or d k dflt = (case map_of d k of None \<Rightarrow> dflt | Some v \<Rightarrow> v)"

text \<open>
  \<^verbatim>\<open>x.pop(k, default)\<close>: on a \<^verbatim>\<open>dict\<close> it returns the value and removes the key from
  the object, so the updated dictionary is returned as well. A \<^verbatim>\<open>list\<close> has a \<^verbatim>\<open>pop\<close>
  that takes one argument (\<^verbatim>\<open>TypeError\<close>); the other values have no such attribute.
\<close>

fun py_pop :: "json \<Rightarrow> string \<Rightarrow> json \<Rightarrow> exn + (json \<times> dict)" where
  "py_pop (JObj d) k dflt = Inr (get_or d k dflt, AList.delete k d)"
| "py_pop (JArr xs) k dflt = Inl TypeError"
| "py_pop v k dflt = Inl AttributeError"

text \<open>What \<^verbatim>\<open>for item in x\<close> iterates over.\<close>

fun py_iter :: "json \<Rightarrow> exn + json list" where
  "py_iter (JArr xs) = Inr xs"
| "py_iter (JObj d) = Inr (map (\<lambda>(k, v). JStr k) d)"
| "py_iter (JStr s) = Inr (map (\<lambda>c. JStr [c]) s)"
| "py_iter v = Inl TypeError"

text \<open>Truth value of an object in a condition.\<close>

fun py_truthy :: "json \<Rightarrow> bool" where
  "py_truthy JNull = False"
| "py_truthy (JBool b) = b"
| "py_truthy (JNum r) = (r \<noteq> 0)"
| "py_truthy (JStr s) = (s \<noteq> [])"
| "py_truthy (JArr xs) = (xs \<noteq> [])"
| "py_truthy (JObj d) = (d \<noteq> [])"


section \<open>Numeric literal cleaning\<close>

text \<open>
  \<^verbatim>\<open>re.sub(r'(?<=\d),(?=\d)', '', json_str)\<close>: the scan visits the text from left to
  right; at a comma whose left neighbour and right neighbour in the text are digits the
  match is replaced by the empty string, every other character is copied. \<open>prev\<close> is
  the character before the current position (the look-behind reads the text, not the
  output). On 8-bit characters \<^verbatim>\<open>\d\<close> is \<^verbatim>\<open>[0-9]\<close>.
\<close>

definition is_digit :: "char \<Rightarrow> bool" where
  "is_digit c = (c \<in> set ''0123456789'')"

fun sub_commas :: "char option \<Rightarrow> string \<Rightarrow> string" where
  "sub_commas prev [] = []"
| "sub_commas prev (c # cs) =
     (if c = CHR '','' \<and> (case prev of None \<Rightarrow> False | Some p \<Rightarrow> is_digit p)
                     \<and> (case cs of [] \<Rightarrow> False | d # _ \<Rightarrow> is_digit d)
      then sub_commas (Some c) cs
      else c # sub_commas (Some c) cs)"

definition preprocess_json :: "string \<Rightarrow> string" where
  "preprocess_json json_str = sub_commas None json_str"

text \<open>
  The contract in the specification's words, by position: the comma at index \<open>i\<close> lies
  between two digits, and the cleaned text keeps exactly the other positions, in order.
\<close>

definition comma_between_digits :: "string \<Rightarrow> nat \<Rightarrow> bool" where
  "comma_between_digits s i =
     (i < length s \<and> s ! i = CHR '','' \<and> 0 < i \<and> is_digit (s ! (i - 1))
      \<and> Suc i < length s \<and> is_digit (s ! Suc i))"

definition kept_positions :: "string \<Rightarrow> nat list" where
  "kept_positions s = filter (\<lambda>i. \<not> comma_between_digits s i) [0..<length s]"


section \<open>Null-synonym normalisation\<close>

fun normalize_nulls :: "json \<Rightarrow> json" where
  "normalize_nulls (JObj d) = JObj (map (\<lambda>(k, v). (k, normalize_nulls v)) d)"
| "normalize_nulls (JArr xs) = JArr (map normalize_nulls xs)"
| "normalize_nulls (JStr s) = (if s \<in> set [''null'', ''NA''] then JNull else JStr s)"
| "normalize_nulls data = data"

text \<open>
  Positions in a value tree: a path of dictionary keys and list indices, and the value
  found by following it.
\<close>

datatype step = Key string | Idx nat

fun value_at :: "json \<Rightarrow> step list \<Rightarrow> json option" where
  "value_at v [] = Some v"
| "value_at (JObj d) (Key k # p) =
     (case map_of d k of None \<Rightarrow> None | Some v \<Rightarrow> value_at v p)"
| "value_at (JArr xs) (Idx i # p) = (if i < length xs then value_at (xs ! i) p else None)"
| "value_at v (s # p) = None"

fun is_scalar :: "json \<Rightarrow> bool" where
  "is_scalar (JArr xs) = False"
| "is_scalar (JObj d) = False"
| "is_scalar v = True"


section \<open>The validated record model\<close>

text \<open>
  The classes of the schema are pydantic models (the source reads
  \<^verbatim>\<open>InvoiceData.model_fields\<close>, an attribute of pydantic 2). What the library does
  with the keyword arguments of a constructor call is written out here:
  \<^item> a field without a default must be supplied, also when its annotation is
    \<^verbatim>\<open>Optional[...]\<close>; a field with a default takes it when no argument is supplied;
  \<^item> \<^verbatim>\<open>None\<close> is accepted by every \<^verbatim>\<open>Optional[...]\<close> field;
  \<^item> a \<^verbatim>\<open>str\<close> field accepts a string only, a \<^verbatim>\<open>List[Any]\<close> field a list only, a
    \<^verbatim>\<open>Dict[str, Any]\<close> field a dictionary only, a model field a dictionary (validated
    into the model) or an instance;
  \<^item> keyword arguments that name no field are ignored (the default \<^verbatim>\<open>extra='ignore'\<close>);
  \<^item> when any field fails, the call raises one \<^verbatim>\<open>ValidationError\<close>.
  The coercion of a value other than \<^verbatim>\<open>None\<close> to \<^verbatim>\<open>float\<close> is a parameter \<open>lf\<close> of the
  model (\<open>None\<close> when the library rejects the value), so that nothing proved below
  depends on which strings the library reads as numbers.
\<close>

type_synonym lax_float = "json \<Rightarrow> rat option"

fun Optional_str :: "json option \<Rightarrow> exn + string option" where
  "Optional_str None = Inl ValidationError"
| "Optional_str (Some JNull) = Inr None"
| "Optional_str (Some (JStr s)) = Inr (Some s)"
| "Optional_str (Some v) = Inl ValidationError"

fun Optional_float :: "lax_float \<Rightarrow> json option \<Rightarrow> exn + rat option" where
  "Optional_float lf None = Inl ValidationError"
| "Optional_float lf (Some JNull) = Inr None"
| "Optional_float lf (Some v) =
     (case lf v of None \<Rightarrow> Inl ValidationError | Some x \<Rightarrow> Inr (Some x))"

text \<open>\<^verbatim>\<open>Optional[List[Any]] = []\<close>\<close>

fun Optional_List :: "json option \<Rightarrow> exn + json list option" where
  "Optional_List None = Inr (Some [])"
| "Optional_List (Some JNull) = Inr None"
| "Optional_List (Some (JArr xs)) = Inr (Some xs)"
| "Optional_List (Some v) = Inl ValidationError"

text \<open>\<^verbatim>\<open>Optional[Dict[str, Any]] = {}\<close>\<close>

fun Optional_Dict :: "json option \<Rightarrow> exn + dict option" where
  "Optional_Dict None = Inr (Some [])"
| "Optional_Dict (Some JNull) = Inr None"
| "Optional_Dict (Some (JObj d)) = Inr (Some d)"
| "Optional_Dict (Some v) = Inl ValidationError"

text \<open>\<^verbatim>\<open>Optional[Union[str, Dict[str, Any]]] = ""\<close>\<close>

datatype str_or_dict = Str string | Dict dict

fun Optional_Union :: "json option \<Rightarrow> exn + str_or_dict option" where
  "Optional_Union None = Inr (Some (Str []))"
| "Optional_Union (Some JNull) = Inr None"
| "Optional_Union (Some (JStr s)) = Inr (Some (Str s))"
| "Optional_Union (Some (JObj d)) = Inr (Some (Dict d))"
| "Optional_Union (Some v) = Inl ValidationError"

record VendorDetails =
  name :: "string option"
  address :: "string option"
  contact :: "string option"
  tax_id :: "string option"
  extra_fields :: "dict option"

record CustomerDetails =
  name :: "string option"
  address :: "string option"
  contact :: "string option"
  tax_id :: "string option"
  extra_fields :: "dict option"

record LineItem =
  transaction_date :: "string option"
  description :: "string option"
  transaction_type :: "string option"
  quantity :: "rat option"
  unit :: "string option"
  unit_price :: "rat option"
  tax_rate :: "rat option"
  tax_amount :: "rat option"
  subtotal :: "rat option"
  total :: "rat option"
  status :: "string option"
  sub_items :: "json list option"
  extra_details :: "str_or_dict option"
  extra_fields :: "dict option"

record BankDetails =
  account_name :: "string option"
  account_number :: "string option"
  bank_name :: "string option"
  extra_fields :: "dict option"

record PaymentSlip =
  payment_amount :: "rat option"
  payment_due_date :: "string option"
  reference_number :: "string option"
  bank_details :: "BankDetails option"
  extra_fields :: "dict option"

record Totals =
  previous_balance :: "rat option"
  current_charges :: "rat option"
  partial_totals :: "json list option"
  taxes :: "json list option"
  discounts :: "rat option"
  adjustments :: "rat option"
  grand_total :: "rat option"
  amount_in_words :: "string option"
  currency :: "string option"
  extra_fields :: "dict option"

record InvoiceMetadata =
  invoice_number :: "string option"
  invoice_date :: "string option"
  due_date :: "string option"
  currency :: "string option"
  vendor_details :: VendorDetails
  customer_details :: CustomerDetails
  additional_metadata :: "dict option"
  extra_fields :: "dict option"

record InvoiceData =
  document_type :: "string option"
  invoice_metadata :: InvoiceMetadata
  line_items :: "LineItem list"
  totals :: Totals
  payment_slip :: "PaymentSlip option"
  unstructured_content :: "str_or_dict option"
  extra_fields :: "dict option"

text \<open>The keys of \<^verbatim>\<open>InvoiceData.model_fields\<close>.\<close>

definition model_fields :: "string list" where
  "model_fields = [''document_type'', ''invoice_metadata'', ''line_items'', ''totals'',
     ''payment_slip'', ''unstructured_content'', ''extra_fields'']"

text \<open>
  The constructor calls \<^verbatim>\<open>C(**kw)\<close>: every field is validated from the keyword
  arguments \<open>kw\<close>, and the instance exists when no field failed.
\<close>

definition VendorDetails_init :: "dict \<Rightarrow> exn + VendorDetails" where
  "VendorDetails_init kw =
     (let name = Optional_str (map_of kw ''name'');
          address = Optional_str (map_of kw ''address'');
          contact = Optional_str (map_of kw ''contact'');
          tax_id = Optional_str (map_of kw ''tax_id'');
          extra_fields = Optional_Dict (map_of kw ''extra_fields'')
      in if isl name \<or> isl address \<or> isl contact \<or> isl tax_id \<or> isl extra_fields
         then Inl ValidationError
         else Inr \<lparr>VendorDetails.name = projr name, VendorDetails.address = projr address,
                   VendorDetails.contact = projr contact, VendorDetails.tax_id = projr tax_id,
                   VendorDetails.extra_fields = projr extra_fields\<rparr>)"

definition CustomerDetails_init :: "dict \<Rightarrow> exn + CustomerDetails" where
  "CustomerDetails_init kw =
     (let name = Optional_str (map_of kw ''name'');
          address = Optional_str (map_of kw ''address'');
          contact = Optional_str (map_of kw ''contact'');
          tax_id = Optional_str (map_of kw ''tax_id'');
          extra_fields = Optional_Dict (map_of kw ''extra_fields'')
      in if isl name \<or> isl address \<or> isl contact \<or> isl tax_id \<or> isl extra_fields
         then Inl ValidationError
         else Inr \<lparr>CustomerDetails.name = projr name, CustomerDetails.address = projr address,
                   CustomerDetails.contact = projr contact, CustomerDetails.tax_id = projr tax_id,
                   CustomerDetails.extra_fields = projr extra_fields\<rparr>)"

definition LineItem_init :: "lax_float \<Rightarrow> dict \<Rightarrow> exn + LineItem" where
  "LineItem_init lf kw =
     (let transaction_date = Optional_str (map_of kw ''transaction_date'');
          description = Optional_str (map_of kw ''description'');
          transaction_type = Optional_str (map_of kw ''transaction_type'');
          quantity = Optional_float lf (map_of kw ''quantity'');
          unit = Optional_str (map_of kw ''unit'');
          unit_price = Optional_float lf (map_of kw ''unit_price'');
          tax_rate = Optional_float lf (map_of kw ''tax_rate'');
          tax_amount = Optional_float lf (map_of kw ''tax_amount'');
          subtotal = Optional_float lf (map_of kw ''subtotal'');
          total = Optional_float lf (map_of kw ''total'');
          status = Optional_str (map_of kw ''status'');
          sub_items = Optional_List (map_of kw ''sub_items'');
          extra_details = Optional_Union (map_of kw ''extra_details'');
          extra_fields = Optional_Dict (map_of kw ''extra_fields'')
      in if isl transaction_date \<or> isl description \<or> isl transaction_type \<or> isl quantity
            \<or> isl unit \<or> isl unit_price \<or> isl tax_rate \<or> isl tax_amount \<or> isl subtotal
            \<or> isl total \<or> isl status \<or> isl sub_items \<or> isl extra_details \<or> isl extra_fields
         then Inl ValidationError
         else Inr \<lparr>LineItem.transaction_date = projr transaction_date,
                   LineItem.description = projr description,
                   LineItem.transaction_type = projr transaction_type,
                   LineItem.quantity = projr quantity,
                   LineItem.unit = projr unit,
                   LineItem.unit_price = projr unit_price,
                   LineItem.tax_rate = projr tax_rate,
                   LineItem.tax_amount = projr tax_amount,
                   LineItem.subtotal = projr subtotal,
                   LineItem.total = projr total,
                   LineItem.status = projr status,
                   LineItem.sub_items = projr sub_items,
                   LineItem.extra_details = projr extra_details,
                   LineItem.extra_fields = projr extra_fields\<rparr>)"

definition BankDetails_init :: "dict \<Rightarrow> exn + BankDetails" where
  "BankDetails_init kw =
     (let account_name = Optional_str (map_of kw ''account_name'');
          account_number = Optional_str (map_of kw ''account_number'');
          bank_name = Optional_str (map_of kw ''bank_name'');
          extra_fields = Optional_Dict (map_of kw ''extra_fields'')
      in if isl account_name \<or> isl account_number \<or> isl bank_name \<or> isl extra_fields
         then Inl ValidationError
         else Inr \<lparr>BankDetails.account_name = projr account_name,
                   BankDetails.account_number = projr account_number,
                   BankDetails.bank_name = projr bank_name,
                   BankDetails.extra_fields = projr extra_fields\<rparr>)"

text \<open>
  \<^verbatim>\<open>PaymentSlip(**kw, bank_details=b, extra_fields=e)\<close>: the source passes the bank
  details as an instance, which the field accepts as it is.
\<close>

definition PaymentSlip_init :: "lax_float \<Rightarrow> dict \<Rightarrow> BankDetails \<Rightarrow> exn + PaymentSlip" where
  "PaymentSlip_init lf kw bank =
     (let payment_amount = Optional_float lf (map_of kw ''payment_amount'');
          payment_due_date = Optional_str (map_of kw ''payment_due_date'');
          reference_number = Optional_str (map_of kw ''reference_number'');
          extra_fields = Optional_Dict (map_of kw ''extra_fields'')
      in if isl payment_amount \<or> isl payment_due_date \<or> isl reference_number
            \<or> isl extra_fields
         then Inl ValidationError
         else Inr \<lparr>PaymentSlip.payment_amount = projr payment_amount,
                   PaymentSlip.payment_due_date = projr payment_due_date,
                   PaymentSlip.reference_number = projr reference_number,
                   PaymentSlip.bank_details = Some bank,
                   PaymentSlip.extra_fields = projr extra_fields\<rparr>)"

definition Totals_init :: "lax_float \<Rightarrow> dict \<Rightarrow> exn + Totals" where
  "Totals_init lf kw =
     (let previous_balance = Optional_float lf (map_of kw ''previous_balance'');
          current_charges = Optional_float lf (map_of kw ''current_charges'');
          partial_totals = Optional_List (map_of kw ''partial_totals'');
          taxes = Optional_List (map_of kw ''taxes'');
          discounts = Optional_float lf (map_of kw ''discounts'');
          adjustments = Optional_float lf (map_of kw ''adjustments'');
          grand_total = Optional_float lf (map_of kw ''grand_total'');
          amount_in_words = Optional_str (map_of kw ''amount_in_words'');
          currency = Optional_str (map_of kw ''currency'');
          extra_fields = Optional_Dict (map_of kw ''extra_fields'')
      in if isl previous_balance \<or> isl current_charges \<or> isl partial_totals \<or> isl taxes
            \<or> isl discounts \<or> isl adjustments \<or> isl grand_total \<or> isl amount_in_words
            \<or> isl currency \<or> isl extra_fields
         then Inl ValidationError
         else Inr \<lparr>Totals.previous_balance = projr previous_balance,
                   Totals.current_charges = projr current_charges,
                   Totals.partial_totals = projr partial_totals,
                   Totals.taxes = projr taxes,
                   Totals.discounts = projr discounts,
                   Totals.adjustments = projr adjustments,
                   Totals.grand_total = projr grand_total,
                   Totals.amount_in_words = projr amount_in_words,
                   Totals.currency = projr currency,
                   Totals.extra_fields = projr extra_fields\<rparr>)"

text \<open>A field whose type is a model, without \<^verbatim>\<open>Optional\<close> and without a default.\<close>

fun VendorDetails_field :: "json option \<Rightarrow> exn + VendorDetails" where
  "VendorDetails_field (Some (JObj d)) = VendorDetails_init d"
| "VendorDetails_field v = Inl ValidationError"

fun CustomerDetails_field :: "json option \<Rightarrow> exn + CustomerDetails" where
  "CustomerDetails_field (Some (JObj d)) = CustomerDetails_init d"
| "CustomerDetails_field v = Inl ValidationError"

definition InvoiceMetadata_init :: "dict \<Rightarrow> exn + InvoiceMetadata" where
  "InvoiceMetadata_init kw =
     (let invoice_number = Optional_str (map_of kw ''invoice_number'');
          invoice_date = Optional_str (map_of kw ''invoice_date'');
          due_date = Optional_str (map_of kw ''due_date'');
          currency = Optional_str (map_of kw ''currency'');
          vendor_details = VendorDetails_field (map_of kw ''vendor_details'');
          customer_details = CustomerDetails_field (map_of kw ''customer_details'');
          additional_metadata = Optional_Dict (map_of kw ''additional_metadata'');
          extra_fields = Optional_Dict (map_of kw ''extra_fields'')
      in if isl invoice_number \<or> isl invoice_date \<or> isl due_date \<or> isl currency
            \<or> isl vendor_details \<or> isl customer_details \<or> isl additional_metadata
            \<or> isl extra_fields
         then Inl ValidationError
         else Inr \<lparr>InvoiceMetadata.invoice_number = projr invoice_number,
                   InvoiceMetadata.invoice_date = projr invoice_date,
                   InvoiceMetadata.due_date = projr due_date,
                   InvoiceMetadata.currency = projr currency,
                   InvoiceMetadata.vendor_details = projr vendor_details,
                   InvoiceMetadata.customer_details = projr customer_details,
                   InvoiceMetadata.additional_metadata = projr additional_metadata,
                   InvoiceMetadata.extra_fields = projr extra_fields\<rparr>)"

text \<open>
  \<^verbatim>\<open>InvoiceData(...)\<close> as called at lines 457 to 480: the sub-records are instances,
  the document type and the unstructured content are values of the decoded tree, the
  overflow map is a dictionary built by the caller.
\<close>

definition InvoiceData_init ::
  "json \<Rightarrow> InvoiceMetadata \<Rightarrow> LineItem list \<Rightarrow> Totals \<Rightarrow> PaymentSlip option \<Rightarrow> json \<Rightarrow> dict
     \<Rightarrow> exn + InvoiceData" where
  "InvoiceData_init dt im lis tot ps uc ef =
     (let document_type = Optional_str (Some dt);
          unstructured_content = Optional_Union (Some uc)
      in if isl document_type \<or> isl unstructured_content
         then Inl ValidationError
         else Inr \<lparr>InvoiceData.document_type = projr document_type,
                   InvoiceData.invoice_metadata = im,
                   InvoiceData.line_items = lis,
                   InvoiceData.totals = tot,
                   InvoiceData.payment_slip = ps,
                   InvoiceData.unstructured_content = projr unstructured_content,
                   InvoiceData.extra_fields = Some ef\<rparr>)"


section \<open>Decoding\<close>

text \<open>
  \<^verbatim>\<open>json.loads\<close> on a \<^verbatim>\<open>str\<close>, in two passes that together accept the texts the
  library's scanner accepts and build the same tree: the text is cut into tokens
  (whitespace is \<^verbatim>\<open>' \t\n\r'\<close>; a number is the longest match of
  \<^verbatim>\<open>-?(0|[1-9][0-9]*)(\.[0-9]+)?([eE][-+]?[0-9]+)?\<close>; a string ends at the first
  unescaped quote and contains no control character), then the tokens are read with
  a stack of the containers that are still open. \<open>None\<close> is \<^verbatim>\<open>JSONDecodeError\<close>.
  Outside the model, and rejected here: the literals \<^verbatim>\<open>NaN\<close>, \<^verbatim>\<open>Infinity\<close> and
  \<^verbatim>\<open>-Infinity\<close>, which have no exact value, and \<^verbatim>\<open>\u\<close> escapes of code points beyond
  8 bits.
\<close>

datatype token =
    LBrace | RBrace | LBracket | RBracket | Colon | Comma
  | TStr string | TNum rat | TTrue | TFalse | TNull

definition digit_val :: "char \<Rightarrow> nat" where
  "digit_val c = of_char c - 48"

definition nat_of_digits :: "string \<Rightarrow> nat" where
  "nat_of_digits ds = foldl (\<lambda>n c. 10 * n + digit_val c) 0 ds"

text \<open>The value of a digit string as a number, computed in the rationals.\<close>

definition rat_of_digits :: "string \<Rightarrow> rat" where
  "rat_of_digits ds = foldl (\<lambda>r c. 10 * r + of_nat (digit_val c)) 0 ds"

definition hex_val :: "char \<Rightarrow> nat option" where
  "hex_val c =
     (let n = of_char c :: nat
      in if 48 \<le> n \<and> n \<le> 57 then Some (n - 48)
         else if 65 \<le> n \<and> n \<le> 70 then Some (n - 55)
         else if 97 \<le> n \<and> n \<le> 102 then Some (n - 87)
         else None)"

text \<open>The character an escape sequence stands for, and the text after the sequence.\<close>

fun unescape :: "string \<Rightarrow> (char \<times> string) option" where
  "unescape [] = None"
| "unescape (e # cs) =
     (if e = CHR 0x22 then Some (CHR 0x22, cs)
      else if e = CHR 0x5C then Some (CHR 0x5C, cs)
      else if e = CHR ''/'' then Some (CHR ''/'', cs)
      else if e = CHR ''b'' then Some (CHR 0x08, cs)
      else if e = CHR ''f'' then Some (CHR 0x0C, cs)
      else if e = CHR ''n'' then Some (CHR 0x0A, cs)
      else if e = CHR ''r'' then Some (CHR 0x0D, cs)
      else if e = CHR ''t'' then Some (CHR 0x09, cs)
      else if e = CHR ''u'' then
        (case cs of
           a # b # c # d # rest \<Rightarrow>
             (case (hex_val a, hex_val b, hex_val c, hex_val d) of
                (Some x, Some y, Some z, Some w) \<Rightarrow>
                  (if x = 0 \<and> y = 0 then Some (char_of (16 * z + w), rest) else None)
              | _ \<Rightarrow> None)
         | _ \<Rightarrow> None)
      else None)"

text \<open>The body of a string literal, after its opening quote.\<close>

function scanstring :: "string \<Rightarrow> string \<Rightarrow> (string \<times> string) option" where
  "scanstring acc [] = None"
| "scanstring acc (c # cs) =
     (if c = CHR 0x22 then Some (acc, cs)
      else if c = CHR 0x5C then
        (case unescape cs of
           None \<Rightarrow> None
         | Some (x, rest) \<Rightarrow> scanstring (acc @ [x]) rest)
      else if (of_char c :: nat) < 32 then None
      else scanstring (acc @ [c]) cs)"
  by pat_completeness auto
termination
proof (relation "measure (\<lambda>(acc, cs). length cs)")
  fix acc :: string and c :: char and cs :: string and p x rest
  assume "unescape cs = Some p" and "(x, rest) = p"
  then have "unescape cs = Some (x, rest)" by simp
  then have "length rest \<le> length cs"
    by (cases cs) (auto split: if_splits list.splits option.splits)
  then show "((acc @ [x], rest), (acc, c # cs)) \<in> measure (\<lambda>(acc, cs). length cs)"
    by simp
qed simp_all

text \<open>
  A number literal at the head of the text, group by group: the integer part
  \<^verbatim>\<open>(0|[1-9][0-9]*)\<close>, the fraction \<^verbatim>\<open>(\.[0-9]+)?\<close> and the exponent
  \<^verbatim>\<open>([eE][-+]?[0-9]+)?\<close>. Each returns the digits it matched and the text after them.
\<close>

definition match_int :: "string \<Rightarrow> (string \<times> string) option" where
  "match_int cs =
     (case cs of
        [] \<Rightarrow> None
      | d # r \<Rightarrow>
          if \<not> is_digit d then None
          else if d = CHR ''0'' then Some ([d], r)
          else Some (d # takeWhile is_digit r, dropWhile is_digit r))"

definition match_frac :: "string \<Rightarrow> string \<times> string" where
  "match_frac cs =
     (case cs of
        p # f # r \<Rightarrow>
          if p = CHR ''.'' \<and> is_digit f
          then (f # takeWhile is_digit r, dropWhile is_digit r)
          else ([], cs)
      | _ \<Rightarrow> ([], cs))"

definition match_sign :: "string \<Rightarrow> bool \<times> string" where
  "match_sign cs =
     (case cs of
        [] \<Rightarrow> (False, cs)
      | g # r \<Rightarrow>
          if g = CHR ''-'' then (True, r)
          else if g = CHR ''+'' then (False, r)
          else (False, cs))"

definition match_exp :: "string \<Rightarrow> (bool \<times> string) \<times> string" where
  "match_exp cs =
     (case cs of
        [] \<Rightarrow> ((False, []), cs)
      | e # r \<Rightarrow>
          if e = CHR ''e'' \<or> e = CHR ''E'' then
            (case match_sign r of
               (sg, []) \<Rightarrow> ((False, []), cs)
             | (sg, x # r') \<Rightarrow>
                 if is_digit x
                 then ((sg, x # takeWhile is_digit r'), dropWhile is_digit r')
                 else ((False, []), cs))
          else ((False, []), cs))"

definition match_number :: "string \<Rightarrow> (rat \<times> string) option" where
  "match_number cs =
     (let (neg, cs1) = (case cs of [] \<Rightarrow> (False, cs)
                        | c # r \<Rightarrow> if c = CHR ''-'' then (True, r) else (False, cs))
      in case match_int cs1 of
           None \<Rightarrow> None
         | Some (ip, cs2) \<Rightarrow>
             (let (fp, cs3) = match_frac cs2;
                  ((eneg, ep), cs4) = match_exp cs3;
                  mant = rat_of_digits (ip @ fp) / 10 ^ length fp;
                  scaled = (if eneg then mant / 10 ^ nat_of_digits ep
                            else mant * 10 ^ nat_of_digits ep)
              in Some (if neg then - scaled else scaled, cs4)))"

definition is_whitespace :: "char \<Rightarrow> bool" where
  "is_whitespace c = (c \<in> set [CHR '' '', CHR 0x09, CHR 0x0A, CHR 0x0D])"

function tokens :: "string \<Rightarrow> token list option" where
  "tokens [] = Some []"
| "tokens (c # cs) =
     (if is_whitespace c then tokens cs
      else if c = CHR ''{'' then map_option (Cons LBrace) (tokens cs)
      else if c = CHR ''}'' then map_option (Cons RBrace) (tokens cs)
      else if c = CHR ''['' then map_option (Cons LBracket) (tokens cs)
      else if c = CHR '']'' then map_option (Cons RBracket) (tokens cs)
      else if c = CHR '':'' then map_option (Cons Colon) (tokens cs)
      else if c = CHR '','' then map_option (Cons Comma) (tokens cs)
      else if c = CHR 0x22 then
        (case scanstring [] cs of
           None \<Rightarrow> None
         | Some (s, rest) \<Rightarrow> map_option (Cons (TStr s)) (tokens rest))
      else if take 4 (c # cs) = ''null'' then map_option (Cons TNull) (tokens (drop 3 cs))
      else if take 4 (c # cs) = ''true'' then map_option (Cons TTrue) (tokens (drop 3 cs))
      else if take 5 (c # cs) = ''false'' then map_option (Cons TFalse) (tokens (drop 4 cs))
      else
        (case match_number (c # cs) of
           None \<Rightarrow> None
         | Some (x, rest) \<Rightarrow> map_option (Cons (TNum x)) (tokens rest)))"
  by pat_completeness auto
termination
proof (relation "measure length")
  have str: "length rest \<le> length cs" if "scanstring acc cs = Some (s, rest)"
    for acc cs s rest
    using that
  proof (induction acc cs rule: scanstring.induct)
    case (1 acc)
    then show ?case by simp
  next
    case (2 acc c cs)
    show ?case
    proof (cases "c = CHR 0x22")
      case True
      with 2 show ?thesis by simp
    next
      case quote: False
      show ?thesis
      proof (cases "c = CHR 0x5C")
        case True
        with quote "2.prems" obtain x r where u: "unescape cs = Some (x, r)"
          and s: "scanstring (acc @ [x]) r = Some (s, rest)"
          by (auto split: option.splits)
        from u have "length r \<le> length cs"
          by (cases cs) (auto split: if_splits list.splits option.splits)
        moreover from "2.IH"(1) quote True u s have "length rest \<le> length r"
          by simp
        ultimately show ?thesis by simp
      next
        case False
        with quote 2 show ?thesis by (auto split: if_splits)
      qed
    qed
  qed
  have int: "length r < length cs" if "match_int cs = Some (ip, r)" for cs ip r
    using that length_dropWhile_le [of is_digit "tl cs"]
    by (cases cs) (auto simp: match_int_def less_Suc_eq_le split: if_splits)
  have frac: "length r \<le> length cs" if "match_frac cs = (fp, r)" for cs fp r
  proof (cases cs)
    case Nil
    with that show ?thesis by (simp add: match_frac_def)
  next
    case (Cons p t)
    show ?thesis
    proof (cases t)
      case Nil
      with Cons that show ?thesis by (simp add: match_frac_def)
    next
      case (Cons f u)
      with \<open>cs = p # t\<close> that length_dropWhile_le [of is_digit u] show ?thesis
        by (auto simp: match_frac_def split: if_splits)
    qed
  qed
  have sign: "length r \<le> length cs" if "match_sign cs = (sg, r)" for cs sg r
    using that by (cases cs) (auto simp: match_sign_def split: if_splits)
  have exp: "length r \<le> length cs" if "match_exp cs = (ep, r)" for cs ep r
  proof (cases cs)
    case Nil
    with that show ?thesis by (simp add: match_exp_def)
  next
    case (Cons e t)
    obtain sg u where ms: "match_sign t = (sg, u)" by (cases "match_sign t")
    from sign [OF ms] have ut: "length u \<le> length t" .
    show ?thesis
    proof (cases u)
      case Nil
      with Cons ms that show ?thesis by (auto simp: match_exp_def split: if_splits)
    next
      case (Cons x v)
      with \<open>cs = e # t\<close> ms that ut length_dropWhile_le [of is_digit v] show ?thesis
        by (auto simp: match_exp_def split: if_splits)
    qed
  qed
  have num: "length rest < length cs" if "match_number cs = Some (x, rest)" for cs x rest
  proof -
    obtain neg cs1 where n: "(case cs of [] \<Rightarrow> (False, cs)
        | c # r \<Rightarrow> if c = CHR ''-'' then (True, r) else (False, cs)) = (neg, cs1)"
      by (cases "(case cs of [] \<Rightarrow> (False, cs)
        | c # r \<Rightarrow> if c = CHR ''-'' then (True, r) else (False, cs))")
    then have l1: "length cs1 \<le> length cs"
      by (cases cs) (auto split: if_splits)
    from that n obtain ip cs2 where i: "match_int cs1 = Some (ip, cs2)"
      by (auto simp: match_number_def split: option.splits)
    obtain fp cs3 where f: "match_frac cs2 = (fp, cs3)" by (cases "match_frac cs2")
    obtain ep cs4 where e: "match_exp cs3 = (ep, cs4)" by (cases "match_exp cs3")
    from that n i f e have "rest = cs4"
      by (cases ep) (simp add: match_number_def Let_def)
    with int [OF i] frac [OF f] exp [OF e] l1 show ?thesis by simp
  qed
  show "wf (measure length)" by simp
  show "(rest, c # cs) \<in> measure length"
    if "scanstring [] cs = Some p" "(s, rest) = p" for c cs p s rest
    using str [of "[]" cs s rest] that by simp
  show "(rest, c # cs) \<in> measure length"
    if "match_number (c # cs) = Some p" "(x, rest) = p" for c cs p x rest
    using num [of "c # cs" x rest] that by simp
qed simp_all

text \<open>
  Reading the tokens. A frame is a container that is still open: a list with the
  elements read so far, a dictionary with the pairs read so far, or a dictionary
  with a key whose value is being read. A repeated key keeps its first position and
  takes the last value, as \<^verbatim>\<open>dict(pairs)\<close> does.
\<close>

datatype frame = FArr "json list" | FObj dict | FKey dict string

datatype mode = MValue | MValueOrClose | MKeyOrClose | MKey | MColon | MAfter | MDone json

fun complete :: "json \<Rightarrow> frame list \<Rightarrow> (mode \<times> frame list) option" where
  "complete v [] = Some (MDone v, [])"
| "complete v (FArr xs # st) = Some (MAfter, FArr (xs @ [v]) # st)"
| "complete v (FKey d k # st) = Some (MAfter, FObj (AList.update k v d) # st)"
| "complete v (FObj d # st) = None"

fun scalar_of :: "token \<Rightarrow> json option" where
  "scalar_of (TStr s) = Some (JStr s)"
| "scalar_of (TNum x) = Some (JNum x)"
| "scalar_of TTrue = Some (JBool True)"
| "scalar_of TFalse = Some (JBool False)"
| "scalar_of TNull = Some JNull"
| "scalar_of t = None"

fun open_value :: "frame list \<Rightarrow> token \<Rightarrow> (mode \<times> frame list) option" where
  "open_value st LBracket = Some (MValueOrClose, FArr [] # st)"
| "open_value st LBrace = Some (MKeyOrClose, FObj [] # st)"
| "open_value st t = (case scalar_of t of None \<Rightarrow> None | Some v \<Rightarrow> complete v st)"

fun read_token :: "mode \<Rightarrow> frame list \<Rightarrow> token \<Rightarrow> (mode \<times> frame list) option" where
  "read_token MValue st t = open_value st t"
| "read_token MValueOrClose (FArr xs # st) RBracket = complete (JArr xs) st"
| "read_token MValueOrClose st t = open_value st t"
| "read_token MKeyOrClose (FObj d # st) RBrace = complete (JObj d) st"
| "read_token MKeyOrClose (FObj d # st) (TStr k) = Some (MColon, FKey d k # st)"
| "read_token MKey (FObj d # st) (TStr k) = Some (MColon, FKey d k # st)"
| "read_token MColon st Colon = Some (MValue, st)"
| "read_token MAfter (FArr xs # st) Comma = Some (MValue, FArr xs # st)"
| "read_token MAfter (FArr xs # st) RBracket = complete (JArr xs) st"
| "read_token MAfter (FObj d # st) Comma = Some (MKey, FObj d # st)"
| "read_token MAfter (FObj d # st) RBrace = complete (JObj d) st"
| "read_token m st t = None"

fun read_tokens :: "mode \<Rightarrow> frame list \<Rightarrow> token list \<Rightarrow> json option" where
  "read_tokens m st [] = (case m of MDone v \<Rightarrow> Some v | _ \<Rightarrow> None)"
| "read_tokens m st (t # ts) =
     (case read_token m st t of None \<Rightarrow> None | Some (m', st') \<Rightarrow> read_tokens m' st' ts)"

definition json_loads :: "string \<Rightarrow> json option" where
  "json_loads s = (case tokens s of None \<Rightarrow> None | Some ts \<Rightarrow> read_tokens MValue [] ts)"


section \<open>Reconciliation\<close>

text \<open>
  The body of the loop over the line items (lines 428 to 432): the item's own
  \<^verbatim>\<open>extra_fields\<close> entry is popped, a missing or \<^verbatim>\<open>None\<close> \<^verbatim>\<open>extra_details\<close> is set
  to the empty string, and the item is passed to the constructor together with the
  popped entry. An item that is not a dictionary has no two-argument \<^verbatim>\<open>pop\<close>.
\<close>

definition normalize_line_item :: "lax_float \<Rightarrow> json \<Rightarrow> exn + LineItem" where
  "normalize_line_item lf item =
     (case py_pop item ''extra_fields'' (JObj []) of
        Inl e \<Rightarrow> Inl e
      | Inr (item_extra_fields, item1) \<Rightarrow>
          (let item2 = (if map_of item1 ''extra_details'' = None
                           \<or> map_of item1 ''extra_details'' = Some JNull
                        then AList.update ''extra_details'' (JStr []) item1
                        else item1)
           in LineItem_init lf (item2 @ [(''extra_fields'', item_extra_fields)])))"

text \<open>The loop of lines 426 to 433; it stops at the first item that raises.\<close>

fun line_items_loop :: "lax_float \<Rightarrow> json list \<Rightarrow> LineItem list \<Rightarrow> exn + LineItem list" where
  "line_items_loop lf [] normalized_line_items = Inr normalized_line_items"
| "line_items_loop lf (item # items) normalized_line_items =
     (case normalize_line_item lf item of
        Inl e \<Rightarrow> Inl e
      | Inr li \<Rightarrow> line_items_loop lf items (normalized_line_items @ [li]))"

text \<open>
  Lines 450 to 454, on the metadata dictionary after its \<^verbatim>\<open>extra_fields\<close> entry was
  popped. The additional metadata is the dictionary stored in the metadata (or a
  fresh empty one when the key is missing, which the metadata then never sees); a
  \<^verbatim>\<open>reference_numbers\<close> string is wrapped in a list and an \<^verbatim>\<open>extra_fields\<close> entry that
  is not a dictionary is replaced by an empty one, in place. The result is the
  metadata dictionary as the constructor call of line 459 finds it.
\<close>

definition normalize_additional_metadata :: "dict \<Rightarrow> exn + dict" where
  "normalize_additional_metadata metadata =
     (case get_or metadata ''additional_metadata'' (JObj []) of
        JObj am \<Rightarrow>
          (let am1 = (case map_of am ''reference_numbers'' of
                        Some (JStr s) \<Rightarrow> AList.update ''reference_numbers'' (JArr [JStr s]) am
                      | _ \<Rightarrow> am);
               am2 = (case map_of am1 ''extra_fields'' of
                        Some (JObj e) \<Rightarrow> am1
                      | _ \<Rightarrow> AList.update ''extra_fields'' (JObj []) am1)
           in Inr (if map_of metadata ''additional_metadata'' = None then metadata
                   else AList.update ''additional_metadata'' (JObj am2) metadata))
      | _ \<Rightarrow> Inl AttributeError)"

text \<open>
  The payment slip argument of line 468 to 475. The condition reads
  \<^verbatim>\<open>normalized_invoice_dict.get("payment_slip")\<close> after lines 445 and 446 have popped
  two keys from that very dictionary object, so \<open>slip_now\<close> is the entry as it is
  at that moment (\<^verbatim>\<open>None\<close> when the key is missing).
\<close>

definition payment_slip_arg ::
  "lax_float \<Rightarrow> json \<Rightarrow> dict \<Rightarrow> json \<Rightarrow> dict \<Rightarrow> json \<Rightarrow> exn + PaymentSlip option" where
  "payment_slip_arg lf slip_now slip slip_extra_fields bank bank_extra_fields =
     (if py_truthy slip_now then
        (case BankDetails_init (bank @ [(''extra_fields'', bank_extra_fields)]) of
           Inl e \<Rightarrow> Inl e
         | Inr bank_record \<Rightarrow>
             (case PaymentSlip_init lf (slip @ [(''extra_fields'', slip_extra_fields)])
                     bank_record of
                Inl e \<Rightarrow> Inl e
              | Inr ps \<Rightarrow> Inr (Some ps)))
      else Inr None)"

text \<open>
  Lines 418 to 482, on the normalised tree. Every statement that can raise is a
  \<open>case\<close>, in the order of the source.
\<close>

definition reconcile :: "lax_float \<Rightarrow> json \<Rightarrow> exn + InvoiceData" where
  "reconcile lf normalized_invoice_dict =
     (case normalized_invoice_dict of
        JObj nd \<Rightarrow>
          (case py_iter (get_or nd ''line_items'' (JArr [])) of
             Inl e \<Rightarrow> Inl e
           | Inr items \<Rightarrow>
          (case line_items_loop lf items [] of
             Inl e \<Rightarrow> Inl e
           | Inr normalized_line_items \<Rightarrow>
          (case py_pop (get_or nd ''invoice_metadata'' (JObj [])) ''extra_fields'' (JObj []) of
             Inl e \<Rightarrow> Inl e
           | Inr (metadata_extra_fields, metadata) \<Rightarrow>
          (case py_pop (get_or nd ''totals'' (JObj [])) ''extra_fields'' (JObj []) of
             Inl e \<Rightarrow> Inl e
           | Inr (totals_extra_fields, totals_dict) \<Rightarrow>
          (case py_pop (get_or nd ''payment_slip'' (JObj [])) ''extra_fields'' (JObj []) of
             Inl e \<Rightarrow> Inl e
           | Inr (payment_slip_extra_fields, payment_slip1) \<Rightarrow>
          (case py_pop (JObj payment_slip1) ''bank_details'' (JObj []) of
             Inl e \<Rightarrow> Inl e
           | Inr (bank_details0, payment_slip_dict) \<Rightarrow>
          (case py_pop bank_details0 ''extra_fields'' (JObj []) of
             Inl e \<Rightarrow> Inl e
           | Inr (bank_details_extra_fields, bank_details_dict) \<Rightarrow>
          (case normalize_additional_metadata metadata of
             Inl e \<Rightarrow> Inl e
           | Inr metadata' \<Rightarrow>
          (case InvoiceMetadata_init (metadata' @ [(''extra_fields'', metadata_extra_fields)]) of
             Inl e \<Rightarrow> Inl e
           | Inr metadata_record \<Rightarrow>
          (case Totals_init lf (totals_dict @ [(''extra_fields'', totals_extra_fields)]) of
             Inl e \<Rightarrow> Inl e
           | Inr totals_record \<Rightarrow>
          (case payment_slip_arg lf
                  (case map_of nd ''payment_slip'' of None \<Rightarrow> JNull
                   | Some v \<Rightarrow> JObj payment_slip_dict)
                  payment_slip_dict payment_slip_extra_fields
                  bank_details_dict bank_details_extra_fields of
             Inl e \<Rightarrow> Inl e
           | Inr payment_slip_record \<Rightarrow>
               InvoiceData_init (get_or nd ''document_type'' JNull) metadata_record
                 normalized_line_items totals_record payment_slip_record
                 (get_or nd ''unstructured_content'' (JStr []))
                 (filter (\<lambda>(k, v). k \<notin> set model_fields) nd))))))))))))
      | _ \<Rightarrow> Inl AttributeError)"


section \<open>The parse function\<close>

record HTTPException =
  status_code :: nat
  detail :: string

text \<open>The three handlers of lines 484 to 492.\<close>

fun handler :: "exn \<Rightarrow> HTTPException" where
  "handler JSONDecodeError =
     \<lparr>status_code = 500, detail = ''Received invalid JSON from GPT.''\<rparr>"
| "handler ValidationError =
     \<lparr>status_code = 422, detail = ''Validation error in GPT response data.''\<rparr>"
| "handler e =
     \<lparr>status_code = 500, detail = ''An error occurred while parsing GPT response.''\<rparr>"

text \<open>
  The body of the \<^verbatim>\<open>try\<close>: line 393 decodes the response as it is, line 403 decodes
  the cleaned response, and only the second tree is used. The response is the text
  that \<^verbatim>\<open>call_gpt_api\<close> returns; the stripping of code fences and typographic quotes
  happens there (line 378), before the parse function is called.
\<close>

definition try_body :: "lax_float \<Rightarrow> string \<Rightarrow> exn + InvoiceData" where
  "try_body lf response =
     (case json_loads response of
        None \<Rightarrow> Inl JSONDecodeError
      | Some unused \<Rightarrow>
          (case json_loads (preprocess_json response) of
             None \<Rightarrow> Inl JSONDecodeError
           | Some invoice_dict \<Rightarrow> reconcile lf (normalize_nulls invoice_dict)))"

definition parse_gpt_response :: "lax_float \<Rightarrow> string \<Rightarrow> HTTPException + InvoiceData" where
  "parse_gpt_response lf response =
     (case try_body lf response of Inl e \<Rightarrow> Inl (handler e) | Inr invoice_data \<Rightarrow> Inr invoice_data)"

text \<open>
  An instance of the coercion parameter for the examples: a number is taken as it is
  and a string is read when it is a number literal in JSON's notation, on which the
  library agrees.
\<close>

fun decimal_float :: lax_float where
  "decimal_float (JNum x) = Some x"
| "decimal_float (JStr s) =
     (case match_number s of Some (x, []) \<Rightarrow> Some x | _ \<Rightarrow> None)"
| "decimal_float v = None"


section \<open>Vocabulary of the properties\<close>

text \<open>
  The scalar fields of a record, by field name, as values of the decoded tree (an
  absent field is \<open>JNull\<close>): the view in which the output is compared with the input.
\<close>

fun str_out :: "string option \<Rightarrow> json" where
  "str_out None = JNull"
| "str_out (Some s) = JStr s"

fun num_out :: "rat option \<Rightarrow> json" where
  "num_out None = JNull"
| "num_out (Some x) = JNum x"

definition VendorDetails_scalars :: "VendorDetails \<Rightarrow> dict" where
  "VendorDetails_scalars v =
     [(''name'', str_out (VendorDetails.name v)),
      (''address'', str_out (VendorDetails.address v)),
      (''contact'', str_out (VendorDetails.contact v)),
      (''tax_id'', str_out (VendorDetails.tax_id v))]"

definition CustomerDetails_scalars :: "CustomerDetails \<Rightarrow> dict" where
  "CustomerDetails_scalars c =
     [(''name'', str_out (CustomerDetails.name c)),
      (''address'', str_out (CustomerDetails.address c)),
      (''contact'', str_out (CustomerDetails.contact c)),
      (''tax_id'', str_out (CustomerDetails.tax_id c))]"

definition LineItem_scalars :: "LineItem \<Rightarrow> dict" where
  "LineItem_scalars li =
     [(''transaction_date'', str_out (LineItem.transaction_date li)),
      (''description'', str_out (LineItem.description li)),
      (''transaction_type'', str_out (LineItem.transaction_type li)),
      (''quantity'', num_out (LineItem.quantity li)),
      (''unit'', str_out (LineItem.unit li)),
      (''unit_price'', num_out (LineItem.unit_price li)),
      (''tax_rate'', num_out (LineItem.tax_rate li)),
      (''tax_amount'', num_out (LineItem.tax_amount li)),
      (''subtotal'', num_out (LineItem.subtotal li)),
      (''total'', num_out (LineItem.total li)),
      (''status'', str_out (LineItem.status li))]"

definition BankDetails_scalars :: "BankDetails \<Rightarrow> dict" where
  "BankDetails_scalars b =
     [(''account_name'', str_out (BankDetails.account_name b)),
      (''account_number'', str_out (BankDetails.account_number b)),
      (''bank_name'', str_out (BankDetails.bank_name b))]"

definition PaymentSlip_scalars :: "PaymentSlip \<Rightarrow> dict" where
  "PaymentSlip_scalars ps =
     [(''payment_amount'', num_out (PaymentSlip.payment_amount ps)),
      (''payment_due_date'', str_out (PaymentSlip.payment_due_date ps)),
      (''reference_number'', str_out (PaymentSlip.reference_number ps))]"

definition Totals_scalars :: "Totals \<Rightarrow> dict" where
  "Totals_scalars t =
     [(''previous_balance'', num_out (Totals.previous_balance t)),
      (''current_charges'', num_out (Totals.current_charges t)),
      (''discounts'', num_out (Totals.discounts t)),
      (''adjustments'', num_out (Totals.adjustments t)),
      (''grand_total'', num_out (Totals.grand_total t)),
      (''amount_in_words'', str_out (Totals.amount_in_words t)),
      (''currency'', str_out (Totals.currency t))]"

definition InvoiceMetadata_scalars :: "InvoiceMetadata \<Rightarrow> dict" where
  "InvoiceMetadata_scalars m =
     [(''invoice_number'', str_out (InvoiceMetadata.invoice_number m)),
      (''invoice_date'', str_out (InvoiceMetadata.invoice_date m)),
      (''due_date'', str_out (InvoiceMetadata.due_date m)),
      (''currency'', str_out (InvoiceMetadata.currency m))]"

definition InvoiceData_scalars :: "InvoiceData \<Rightarrow> dict" where
  "InvoiceData_scalars r = [(''document_type'', str_out (InvoiceData.document_type r))]"

text \<open>An input entry that is missing, null or a null synonym.\<close>

fun null_input :: "json option \<Rightarrow> bool" where
  "null_input None = True"
| "null_input (Some v) = (v \<in> set [JNull, JStr ''null'', JStr ''NA''])"

text \<open>Every scalar field whose input entry is missing or null is absent in the output.\<close>

definition nulls_absent :: "dict \<Rightarrow> dict \<Rightarrow> bool" where
  "nulls_absent input scalars =
     list_all (\<lambda>(k, out). null_input (map_of input k) \<longrightarrow> out = JNull) scalars"

text \<open>Every scalar field holds the input value of its key.\<close>

definition fields_bound :: "dict \<Rightarrow> dict \<Rightarrow> bool" where
  "fields_bound input scalars = list_all (\<lambda>(k, out). map_of input k = Some out) scalars"

text \<open>
  The \<^verbatim>\<open>extra_fields\<close> entry of an input map itself, as an overflow map: empty when
  the key is missing, absent when it is null.
\<close>

definition own_extra_fields :: "dict \<Rightarrow> dict option" where
  "own_extra_fields d =
     (case map_of d ''extra_fields'' of
        None \<Rightarrow> Some []
      | Some (JObj e) \<Rightarrow> Some e
      | Some v \<Rightarrow> None)"




section \<open>Example inputs\<close>

definition example_vendor :: dict where
  "example_vendor =
     [(''name'', JStr ''Acme''), (''address'', JStr ''12 Main St''),
      (''contact'', JNull), (''tax_id'', JStr ''DE123'')]"

definition example_customer :: dict where
  "example_customer =
     [(''name'', JStr ''Bolt''), (''address'', JNull), (''contact'', JStr ''NA''),
      (''tax_id'', JNull), (''extra_fields'', JObj [(''segment'', JStr ''retail'')])]"

definition example_metadata :: "json \<Rightarrow> dict" where
  "example_metadata vendor =
     [(''invoice_number'', JStr ''INV-001''), (''invoice_date'', JStr ''2024-01-31''),
      (''due_date'', JNull), (''currency'', JStr ''EUR''),
      (''vendor_details'', vendor), (''customer_details'', JObj example_customer),
      (''additional_metadata'', JObj [(''reference_numbers'', JStr ''PO-7'')])]"

definition example_item :: "string \<Rightarrow> dict" where
  "example_item d =
     [(''transaction_date'', JNull), (''description'', JStr d),
      (''transaction_type'', JStr ''null''), (''quantity'', JNum 2), (''unit'', JStr ''pc''),
      (''unit_price'', JNum 625), (''tax_rate'', JNull), (''tax_amount'', JNull),
      (''subtotal'', JNull), (''total'', JNum 1250), (''status'', JNull),
      (''extra_details'', JNull)]"

definition example_totals :: dict where
  "example_totals =
     [(''previous_balance'', JNull), (''current_charges'', JNull), (''discounts'', JNull),
      (''adjustments'', JNull), (''grand_total'', JNum 2500), (''amount_in_words'', JNull),
      (''currency'', JStr ''EUR''), (''extra_fields'', JObj [(''rounding'', JStr ''none'')])]"

definition example_bank :: dict where
  "example_bank =
     [(''account_name'', JStr ''Acme''), (''account_number'', JNull),
      (''bank_name'', JStr ''First Bank'')]"

definition example_slip :: dict where
  "example_slip =
     [(''payment_amount'', JNum 2500), (''payment_due_date'', JNull),
      (''reference_number'', JStr ''R-1''), (''bank_details'', JObj example_bank)]"

text \<open>
  A decoded invoice with every declared field, two line items and a payment slip;
  \<open>vendor\<close> is its \<^verbatim>\<open>vendor_details\<close> entry and \<open>rest\<close> the entries after the totals.
\<close>

definition example_invoice :: "json \<Rightarrow> dict \<Rightarrow> dict" where
  "example_invoice vendor rest =
     [(''document_type'', JStr ''invoice''),
      (''invoice_metadata'', JObj (example_metadata vendor)),
      (''line_items'', JArr [JObj (example_item ''Widget''), JObj (example_item ''Gadget'')]),
      (''totals'', JObj example_totals)] @ rest"

definition example_full :: dict where
  "example_full =
     example_invoice (JObj example_vendor)
       [(''payment_slip'', JObj example_slip), (''page_count'', JNum 3)]"

text \<open>The dictionary that the normaliser makes of a dictionary.\<close>

definition normalized :: "dict \<Rightarrow> dict" where
  "normalized d = map (\<lambda>(k, v). (k, normalize_nulls v)) d"

definition example_record :: InvoiceData where
  "example_record = projr (reconcile decimal_float (normalize_nulls (JObj example_full)))"

text \<open>
  A vendor map with a null synonym as a field, an undeclared key \<^verbatim>\<open>foo\<close>, and an
  \<^verbatim>\<open>extra_fields\<close> entry of its own that holds a null synonym and another \<^verbatim>\<open>foo\<close>.
\<close>

definition example_vendor_overflow :: dict where
  "example_vendor_overflow =
     [(''name'', JStr ''NA''), (''address'', JStr ''12 Main St''), (''contact'', JNull),
      (''tax_id'', JNull), (''foo'', JStr ''bar''),
      (''extra_fields'', JObj [(''k'', JStr ''NA''), (''foo'', JStr ''baz'')])]"

definition example_overflow_record :: InvoiceData where
  "example_overflow_record =
     projr (reconcile decimal_float
       (normalize_nulls (JObj (example_invoice (JObj example_vendor_overflow) []))))"

text \<open>
  Response texts: an invoice with every field that has no default, where \<open>vendor\<close>
  is the text of the \<^verbatim>\<open>vendor_details\<close> entry, \<open>gt\<close> the text of the grand total and
  \<open>rest\<close> the text after the totals.
\<close>

definition party_text :: string where
  "party_text =
     ''{\"name\": \"Acme\", \"address\": null, \"contact\": null, \"tax_id\": null}''"

definition invoice_text :: "string \<Rightarrow> string \<Rightarrow> string \<Rightarrow> string" where
  "invoice_text vendor gt rest =
     ''{\"invoice_metadata\": {\"invoice_number\": \"INV-001\", \"invoice_date\": null, ''
     @ ''\"due_date\": null, \"currency\": null, \"vendor_details\": '' @ vendor
     @ '', \"customer_details\": '' @ party_text @ ''}, ''
     @ ''\"totals\": {\"previous_balance\": null, \"current_charges\": null, ''
     @ ''\"discounts\": null, \"adjustments\": null, \"grand_total\": '' @ gt
     @ '', \"amount_in_words\": null, \"currency\": \"EUR\"}'' @ rest @ ''}''"

definition vendor_foo_text :: string where
  "vendor_foo_text =
     ''{\"name\": \"Acme\", \"address\": null, \"contact\": null, \"tax_id\": null, ''
     @ ''\"foo\": \"bar\"}''"

text \<open>The tree that the decoder returns for such a text.\<close>

definition party_tree :: json where
  "party_tree =
     JObj [(''name'', JStr ''Acme''), (''address'', JNull), (''contact'', JNull),
           (''tax_id'', JNull)]"

definition invoice_tree :: "json \<Rightarrow> json \<Rightarrow> dict \<Rightarrow> json" where
  "invoice_tree vendor gt rest =
     JObj ([(''invoice_metadata'', JObj
              [(''invoice_number'', JStr ''INV-001''), (''invoice_date'', JNull),
               (''due_date'', JNull), (''currency'', JNull),
               (''vendor_details'', vendor), (''customer_details'', party_tree)]),
            (''totals'', JObj
              [(''previous_balance'', JNull), (''current_charges'', JNull),
               (''discounts'', JNull), (''adjustments'', JNull), (''grand_total'', gt),
               (''amount_in_words'', JNull), (''currency'', JStr ''EUR'')])] @ rest)"


definition vendor_foo_tree :: json where
  "vendor_foo_tree =
     JObj [(''name'', JStr ''Acme''), (''address'', JNull), (''contact'', JNull),
           (''tax_id'', JNull), (''foo'', JStr ''bar'')]"


section \<open>Lemmas on the cleaning and the normalisation\<close>

lemma map_of_map_value:
  "map_of (map (\<lambda>(k, v). (k, f v)) d) k = map_option f (map_of d k)"
  by (induction d) auto

lemma value_at_normalize:
  "value_at (normalize_nulls t) p = map_option normalize_nulls (value_at t p)"
proof (induction t p rule: value_at.induct)
  case (1 v)
  then show ?case by simp
next
  case (2 d k p)
  then show ?case
    by (cases "map_of d k") (simp_all add: map_of_map_value)
next
  case (3 xs i p)
  then show ?case by simp
qed (simp_all split: if_splits)

lemma normalize_scalar:
  "is_scalar v \<Longrightarrow> v \<noteq> JStr ''null'' \<Longrightarrow> v \<noteq> JStr ''NA'' \<Longrightarrow> normalize_nulls v = v"
  by (cases v) auto

lemma sub_commas_positions:
  "sub_commas (if pre = [] then None else Some (last pre)) cs =
     map (nth (pre @ cs))
       (filter (\<lambda>i. \<not> comma_between_digits (pre @ cs) i)
          [length pre..<length pre + length cs])"
proof (induction cs arbitrary: pre)
  case Nil
  then show ?case by simp
next
  case (Cons c cs)
  have ih: "sub_commas (Some c) cs =
     map (nth (pre @ c # cs))
       (filter (\<lambda>i. \<not> comma_between_digits (pre @ c # cs) i)
          [Suc (length pre)..<Suc (length pre + length cs)])"
    using Cons.IH [of "pre @ [c]"] by simp
  have here: "comma_between_digits (pre @ c # cs) (length pre) \<longleftrightarrow>
     c = CHR '','' \<and> (case (if pre = [] then None else Some (last pre)) of
                        None \<Rightarrow> False | Some p \<Rightarrow> is_digit p)
       \<and> (case cs of [] \<Rightarrow> False | d # _ \<Rightarrow> is_digit d)"
    by (cases cs; cases pre rule: rev_cases)
       (auto simp: comma_between_digits_def nth_append)
  have range: "[length pre..<length pre + length (c # cs)] =
     length pre # [Suc (length pre)..<Suc (length pre + length cs)]"
    using upt_conv_Cons [of "length pre" "length pre + length (c # cs)"] by simp
  show ?case
  proof (cases "comma_between_digits (pre @ c # cs) (length pre)")
    case True
    with here have "sub_commas (if pre = [] then None else Some (last pre)) (c # cs)
        = sub_commas (Some c) cs"
      by simp
    with True show ?thesis
      unfolding range
      by (simp only: ih filter.simps list.map if_True if_False not_True_eq_False)
  next
    case False
    with here have "sub_commas (if pre = [] then None else Some (last pre)) (c # cs)
        = c # sub_commas (Some c) cs"
      by auto
    with False show ?thesis
      unfolding range
      by (simp only: ih filter.simps list.map if_True if_False not_False_eq_True
          nth_append_length)
  qed
qed

lemma preprocess_json_positions: "preprocess_json s = map (nth s) (kept_positions s)"
  using sub_commas_positions [of "[]" s] by (simp add: preprocess_json_def kept_positions_def)


section \<open>Lemmas on the reconciliation\<close>

lemma py_pop_Inr:
  "py_pop v k dflt = Inr (x, d') \<longleftrightarrow> (\<exists>d. v = JObj d \<and> x = get_or d k dflt \<and> d' = AList.delete k d)"
  by (cases v) auto

lemma line_items_loop_Inr:
  "line_items_loop lf items acc = Inr res \<longleftrightarrow>
     (\<exists>lis. res = acc @ lis \<and> map (normalize_line_item lf) items = map Inr lis)"
proof (induction items arbitrary: acc)
  case Nil
  then show ?case by auto
next
  case (Cons item items)
  show ?case
  proof (cases "normalize_line_item lf item")
    case (Inl e)
    then show ?thesis by (auto simp: map_eq_Cons_conv)
  next
    case (Inr li)
    then show ?thesis
      by (auto simp: Cons.IH map_eq_Cons_conv)
  qed
qed

lemma reconcile_InrE:
  assumes "reconcile lf (JObj nd) = Inr r"
  obtains items lis md tot_d slip_d bank_d md' im tot ps where
    "py_iter (get_or nd ''line_items'' (JArr [])) = Inr items"
    "line_items_loop lf items [] = Inr lis"
    "get_or nd ''invoice_metadata'' (JObj []) = JObj md"
    "get_or nd ''totals'' (JObj []) = JObj tot_d"
    "get_or nd ''payment_slip'' (JObj []) = JObj slip_d"
    "get_or (AList.delete ''extra_fields'' slip_d) ''bank_details'' (JObj []) = JObj bank_d"
    "normalize_additional_metadata (AList.delete ''extra_fields'' md) = Inr md'"
    "InvoiceMetadata_init (md' @ [(''extra_fields'', get_or md ''extra_fields'' (JObj []))]) = Inr im"
    "Totals_init lf (AList.delete ''extra_fields'' tot_d
        @ [(''extra_fields'', get_or tot_d ''extra_fields'' (JObj []))]) = Inr tot"
    "payment_slip_arg lf
        (case map_of nd ''payment_slip'' of None \<Rightarrow> JNull
         | Some v \<Rightarrow> JObj (AList.delete ''bank_details'' (AList.delete ''extra_fields'' slip_d)))
        (AList.delete ''bank_details'' (AList.delete ''extra_fields'' slip_d))
        (get_or slip_d ''extra_fields'' (JObj []))
        (AList.delete ''extra_fields'' bank_d)
        (get_or bank_d ''extra_fields'' (JObj [])) = Inr ps"
    "InvoiceData_init (get_or nd ''document_type'' JNull) im lis tot ps
        (get_or nd ''unstructured_content'' (JStr []))
        (filter (\<lambda>(k, v). k \<notin> set model_fields) nd) = Inr r"
  using assms unfolding reconcile_def
  by (auto simp: py_pop_Inr split: sum.splits prod.splits)

lemma map_of_popped:
  "map_of (AList.delete k d @ [(k, v)]) k' = (if k' = k then Some v else map_of d k')"
  by (simp add: map_of_append AList.delete_conv' map_add_def split: option.splits)

lemma Optional_str_Inr:
  "Optional_str x = Inr y \<Longrightarrow> x = Some (str_out y)"
  by (cases "(x)" rule: Optional_str.cases) auto

lemma Optional_float_null:
  "Optional_float lf x = Inr y \<Longrightarrow> x = None \<or> x = Some JNull \<Longrightarrow> num_out y = JNull"
  by (cases "(lf, x)" rule: Optional_float.cases) auto

lemma Optional_Dict_own:
  "Optional_Dict (map_of d ''extra_fields'') = Inr y \<Longrightarrow> y = own_extra_fields d"
  by (cases "map_of d ''extra_fields''" rule: Optional_Dict.cases)
     (auto simp: own_extra_fields_def)

lemma Optional_Dict_popped:
  "Optional_Dict (Some (get_or d ''extra_fields'' (JObj []))) = Inr y \<Longrightarrow> y = own_extra_fields d"
  by (cases "map_of d ''extra_fields''" rule: Optional_Dict.cases)
     (auto simp: own_extra_fields_def get_or_def)

lemma VendorDetails_init_Inr:
  assumes "VendorDetails_init kw = Inr V"
  shows "Optional_str (map_of kw ''name'') = Inr (VendorDetails.name V)"
    and "Optional_str (map_of kw ''address'') = Inr (VendorDetails.address V)"
    and "Optional_str (map_of kw ''contact'') = Inr (VendorDetails.contact V)"
    and "Optional_str (map_of kw ''tax_id'') = Inr (VendorDetails.tax_id V)"
    and "Optional_Dict (map_of kw ''extra_fields'') = Inr (VendorDetails.extra_fields V)"
  using assms unfolding VendorDetails_init_def Let_def
  by (auto split: if_splits)

lemma CustomerDetails_init_Inr:
  assumes "CustomerDetails_init kw = Inr V"
  shows "Optional_str (map_of kw ''name'') = Inr (CustomerDetails.name V)"
    and "Optional_str (map_of kw ''address'') = Inr (CustomerDetails.address V)"
    and "Optional_str (map_of kw ''contact'') = Inr (CustomerDetails.contact V)"
    and "Optional_str (map_of kw ''tax_id'') = Inr (CustomerDetails.tax_id V)"
    and "Optional_Dict (map_of kw ''extra_fields'') = Inr (CustomerDetails.extra_fields V)"
  using assms unfolding CustomerDetails_init_def Let_def
  by (auto split: if_splits)

lemma BankDetails_init_Inr:
  assumes "BankDetails_init kw = Inr V"
  shows "Optional_str (map_of kw ''account_name'') = Inr (BankDetails.account_name V)"
    and "Optional_str (map_of kw ''account_number'') = Inr (BankDetails.account_number V)"
    and "Optional_str (map_of kw ''bank_name'') = Inr (BankDetails.bank_name V)"
    and "Optional_Dict (map_of kw ''extra_fields'') = Inr (BankDetails.extra_fields V)"
  using assms unfolding BankDetails_init_def Let_def
  by (auto split: if_splits)

lemma PaymentSlip_init_Inr:
  assumes "PaymentSlip_init lf kw bank = Inr V"
  shows "Optional_float lf (map_of kw ''payment_amount'') = Inr (PaymentSlip.payment_amount V)"
    and "Optional_str (map_of kw ''payment_due_date'') = Inr (PaymentSlip.payment_due_date V)"
    and "Optional_str (map_of kw ''reference_number'') = Inr (PaymentSlip.reference_number V)"
    and "PaymentSlip.bank_details V = Some bank"
    and "Optional_Dict (map_of kw ''extra_fields'') = Inr (PaymentSlip.extra_fields V)"
  using assms unfolding PaymentSlip_init_def Let_def
  by (auto split: if_splits)

lemma Totals_init_Inr:
  assumes "Totals_init lf kw = Inr V"
  shows "Optional_float lf (map_of kw ''previous_balance'') = Inr (Totals.previous_balance V)"
    and "Optional_float lf (map_of kw ''current_charges'') = Inr (Totals.current_charges V)"
    and "Optional_float lf (map_of kw ''discounts'') = Inr (Totals.discounts V)"
    and "Optional_float lf (map_of kw ''adjustments'') = Inr (Totals.adjustments V)"
    and "Optional_float lf (map_of kw ''grand_total'') = Inr (Totals.grand_total V)"
    and "Optional_str (map_of kw ''amount_in_words'') = Inr (Totals.amount_in_words V)"
    and "Optional_str (map_of kw ''currency'') = Inr (Totals.currency V)"
    and "Optional_Dict (map_of kw ''extra_fields'') = Inr (Totals.extra_fields V)"
  using assms unfolding Totals_init_def Let_def
  by (auto split: if_splits)

lemma LineItem_init_Inr:
  assumes "LineItem_init lf kw = Inr V"
  shows "Optional_str (map_of kw ''transaction_date'') = Inr (LineItem.transaction_date V)"
    and "Optional_str (map_of kw ''description'') = Inr (LineItem.description V)"
    and "Optional_str (map_of kw ''transaction_type'') = Inr (LineItem.transaction_type V)"
    and "Optional_float lf (map_of kw ''quantity'') = Inr (LineItem.quantity V)"
    and "Optional_str (map_of kw ''unit'') = Inr (LineItem.unit V)"
    and "Optional_float lf (map_of kw ''unit_price'') = Inr (LineItem.unit_price V)"
    and "Optional_float lf (map_of kw ''tax_rate'') = Inr (LineItem.tax_rate V)"
    and "Optional_float lf (map_of kw ''tax_amount'') = Inr (LineItem.tax_amount V)"
    and "Optional_float lf (map_of kw ''subtotal'') = Inr (LineItem.subtotal V)"
    and "Optional_float lf (map_of kw ''total'') = Inr (LineItem.total V)"
    and "Optional_str (map_of kw ''status'') = Inr (LineItem.status V)"
    and "Optional_Union (map_of kw ''extra_details'') = Inr (LineItem.extra_details V)"
    and "Optional_Dict (map_of kw ''extra_fields'') = Inr (LineItem.extra_fields V)"
  using assms unfolding LineItem_init_def Let_def
  by (auto split: if_splits)

lemma InvoiceMetadata_init_Inr:
  assumes "InvoiceMetadata_init kw = Inr V"
  shows "Optional_str (map_of kw ''invoice_number'') = Inr (InvoiceMetadata.invoice_number V)"
    and "Optional_str (map_of kw ''invoice_date'') = Inr (InvoiceMetadata.invoice_date V)"
    and "Optional_str (map_of kw ''due_date'') = Inr (InvoiceMetadata.due_date V)"
    and "Optional_str (map_of kw ''currency'') = Inr (InvoiceMetadata.currency V)"
    and "VendorDetails_field (map_of kw ''vendor_details'') = Inr (InvoiceMetadata.vendor_details V)"
    and "CustomerDetails_field (map_of kw ''customer_details'') = Inr (InvoiceMetadata.customer_details V)"
    and "Optional_Dict (map_of kw ''extra_fields'') = Inr (InvoiceMetadata.extra_fields V)"
  using assms unfolding InvoiceMetadata_init_def Let_def
  by (auto split: if_splits)

lemma InvoiceData_init_Inr:
  assumes "InvoiceData_init dt im lis tot ps uc ef = Inr r"
  shows "Optional_str (Some dt) = Inr (InvoiceData.document_type r)"
    and "InvoiceData.invoice_metadata r = im"
    and "InvoiceData.line_items r = lis"
    and "InvoiceData.totals r = tot"
    and "InvoiceData.payment_slip r = ps"
    and "Optional_Union (Some uc) = Inr (InvoiceData.unstructured_content r)"
    and "InvoiceData.extra_fields r = Some ef"
  using assms unfolding InvoiceData_init_def Let_def
  by (auto split: if_splits)

lemma VendorDetails_field_Inr:
  "VendorDetails_field x = Inr V \<Longrightarrow> \<exists>d. x = Some (JObj d) \<and> VendorDetails_init d = Inr V"
  by (cases x rule: VendorDetails_field.cases) auto

lemma CustomerDetails_field_Inr:
  "CustomerDetails_field x = Inr V \<Longrightarrow> \<exists>d. x = Some (JObj d) \<and> CustomerDetails_init d = Inr V"
  by (cases x rule: CustomerDetails_field.cases) auto

lemma get_or_JObj:
  "get_or d k (JObj []) = JObj m \<Longrightarrow> map_of d k = Some (JObj m) \<or> (map_of d k = None \<and> m = [])"
  by (auto simp: get_or_def split: option.splits)

lemma normalize_additional_metadata_lookup:
  "normalize_additional_metadata md = Inr md' \<Longrightarrow> k \<noteq> ''additional_metadata''
     \<Longrightarrow> map_of md' k = map_of md k"
  unfolding normalize_additional_metadata_def Let_def
  by (cases "get_or md ''additional_metadata'' (JObj [])")
     (auto simp: AList.update_conv' split: if_splits)

lemma reconcile_metadata:
  assumes "reconcile lf (JObj nd) = Inr r"
  obtains md kw where
    "map_of nd ''invoice_metadata'' = Some (JObj md)"
    "InvoiceMetadata_init kw = Inr (invoice_metadata r)"
    "map_of kw ''extra_fields'' = Some (get_or md ''extra_fields'' (JObj []))"
    "\<forall>k. k \<noteq> ''additional_metadata'' \<longrightarrow> k \<noteq> ''extra_fields'' \<longrightarrow> map_of kw k = map_of md k"
proof -
  from assms obtain md md' lis tot ps where
    g: "get_or nd ''invoice_metadata'' (JObj []) = JObj md" and
    n: "normalize_additional_metadata (AList.delete ''extra_fields'' md) = Inr md'" and
    i: "InvoiceMetadata_init (md' @ [(''extra_fields'', get_or md ''extra_fields'' (JObj []))])
          = Inr (invoice_metadata r)"
    by (elim reconcile_InrE) (auto dest: InvoiceData_init_Inr(2))
  let ?kw = "md' @ [(''extra_fields'', get_or md ''extra_fields'' (JObj []))]"
  have look: "map_of md' k = map_of (AList.delete ''extra_fields'' md) k"
    if "k \<noteq> ''additional_metadata''" for k
    using normalize_additional_metadata_lookup [OF n that] .
  have ef: "map_of ?kw ''extra_fields'' = Some (get_or md ''extra_fields'' (JObj []))"
    using look [of "''extra_fields''"]
    by (simp add: map_of_append map_add_def AList.delete_conv')
  have other: "map_of ?kw k = map_of md k"
    if "k \<noteq> ''additional_metadata''" "k \<noteq> ''extra_fields''" for k
    using look [OF that(1)] that(2)
    by (simp add: map_of_append map_add_def AList.delete_conv' split: option.splits)
  have "map_of ?kw ''invoice_number'' \<noteq> None"
    using InvoiceMetadata_init_Inr(1) [OF i] by (auto dest: Optional_str_Inr)
  with other [of "''invoice_number''"] have "map_of md ''invoice_number'' \<noteq> None" by simp
  with get_or_JObj [OF g] have "map_of nd ''invoice_metadata'' = Some (JObj md)" by auto
  then show thesis using that i ef other by blast
qed

lemma reconcile_vendor:
  assumes "reconcile lf (JObj nd) = Inr r"
    and "map_of nd ''invoice_metadata'' = Some (JObj md)"
  obtains vd where "map_of md ''vendor_details'' = Some (JObj vd)"
    "VendorDetails_init vd = Inr (vendor_details (invoice_metadata r))"
proof -
  from assms(1) obtain md0 kw where
    m: "map_of nd ''invoice_metadata'' = Some (JObj md0)" and
    i: "InvoiceMetadata_init kw = Inr (invoice_metadata r)" and
    o: "\<forall>k. k \<noteq> ''additional_metadata'' \<longrightarrow> k \<noteq> ''extra_fields'' \<longrightarrow> map_of kw k = map_of md0 k"
    by (rule reconcile_metadata) blast
  from m assms(2) have "md0 = md" by simp
  with o [rule_format, of "''vendor_details''"] VendorDetails_field_Inr [OF InvoiceMetadata_init_Inr(5) [OF i]]
  show thesis using that by auto
qed

lemma reconcile_customer:
  assumes "reconcile lf (JObj nd) = Inr r"
    and "map_of nd ''invoice_metadata'' = Some (JObj md)"
  obtains cd where "map_of md ''customer_details'' = Some (JObj cd)"
    "CustomerDetails_init cd = Inr (customer_details (invoice_metadata r))"
proof -
  from assms(1) obtain md0 kw where
    m: "map_of nd ''invoice_metadata'' = Some (JObj md0)" and
    i: "InvoiceMetadata_init kw = Inr (invoice_metadata r)" and
    o: "\<forall>k. k \<noteq> ''additional_metadata'' \<longrightarrow> k \<noteq> ''extra_fields'' \<longrightarrow> map_of kw k = map_of md0 k"
    by (rule reconcile_metadata) blast
  from m assms(2) have "md0 = md" by simp
  with o [rule_format, of "''customer_details''"] CustomerDetails_field_Inr [OF InvoiceMetadata_init_Inr(6) [OF i]]
  show thesis using that by auto
qed

lemma reconcile_totals:
  assumes "reconcile lf (JObj nd) = Inr r"
  obtains td where
    "map_of nd ''totals'' = Some (JObj td)"
    "Totals_init lf (AList.delete ''extra_fields'' td
        @ [(''extra_fields'', get_or td ''extra_fields'' (JObj []))]) = Inr (totals r)"
proof -
  from assms obtain td where
    g: "get_or nd ''totals'' (JObj []) = JObj td" and
    i: "Totals_init lf (AList.delete ''extra_fields'' td
        @ [(''extra_fields'', get_or td ''extra_fields'' (JObj []))]) = Inr (totals r)"
    by (elim reconcile_InrE) (auto dest: InvoiceData_init_Inr(4))
  have "map_of td ''previous_balance'' \<noteq> None"
    using Totals_init_Inr(1) [OF i] unfolding map_of_popped
    by (cases "map_of td ''previous_balance''") auto
  with get_or_JObj [OF g] have "map_of nd ''totals'' = Some (JObj td)" by auto
  then show thesis using that i by blast
qed

lemma reconcile_line_items:
  assumes "reconcile lf (JObj nd) = Inr r"
    and "map_of nd ''line_items'' = Some (JArr xs)"
  shows "map (normalize_line_item lf) xs = map Inr (line_items r)"
proof -
  from assms(1) obtain items lis where
    it: "py_iter (get_or nd ''line_items'' (JArr [])) = Inr items" and
    lo: "line_items_loop lf items [] = Inr lis" and
    "line_items r = lis"
    by (elim reconcile_InrE) (auto dest: InvoiceData_init_Inr(3))
  moreover from it assms(2) have "items = xs" by (simp add: get_or_def)
  ultimately show ?thesis by (simp add: line_items_loop_Inr)
qed

lemma normalize_line_item_Inr:
  assumes "normalize_line_item lf (JObj it) = Inr li"
  obtains kw where "LineItem_init lf kw = Inr li"
    "map_of kw ''extra_fields'' = Some (get_or it ''extra_fields'' (JObj []))"
    "map_of kw ''extra_details'' =
       (if map_of it ''extra_details'' = None \<or> map_of it ''extra_details'' = Some JNull
        then Some (JStr []) else map_of it ''extra_details'')"
    "\<forall>k. k \<noteq> ''extra_details'' \<longrightarrow> k \<noteq> ''extra_fields'' \<longrightarrow> map_of kw k = map_of it k"
proof -
  let ?i1 = "AList.delete ''extra_fields'' it"
  let ?i2 = "if map_of ?i1 ''extra_details'' = None \<or> map_of ?i1 ''extra_details'' = Some JNull
             then AList.update ''extra_details'' (JStr []) ?i1 else ?i1"
  let ?kw = "?i2 @ [(''extra_fields'', get_or it ''extra_fields'' (JObj []))]"
  from assms have "LineItem_init lf ?kw = Inr li"
    by (simp add: normalize_line_item_def Let_def)
  moreover have "map_of ?kw ''extra_fields'' = Some (get_or it ''extra_fields'' (JObj []))"
    by (simp add: map_of_append map_add_def AList.delete_conv' AList.update_conv')
  moreover have "map_of ?kw ''extra_details'' =
       (if map_of it ''extra_details'' = None \<or> map_of it ''extra_details'' = Some JNull
        then Some (JStr []) else map_of it ''extra_details'')"
    by (auto simp: map_of_append map_add_def AList.delete_conv' AList.update_conv')
  moreover have "\<forall>k. k \<noteq> ''extra_details'' \<longrightarrow> k \<noteq> ''extra_fields''
      \<longrightarrow> map_of ?kw k = map_of it k"
    by (auto simp: map_of_append map_add_def AList.delete_conv' AList.update_conv'
        split: option.splits)
  ultimately show thesis using that by blast
qed

lemma reconcile_payment_slip:
  assumes "reconcile lf (JObj nd) = Inr r" and "payment_slip r = Some ps"
  obtains sd bd bank where
    "map_of nd ''payment_slip'' = Some (JObj sd)"
    "get_or (AList.delete ''extra_fields'' sd) ''bank_details'' (JObj []) = JObj bd"
    "BankDetails_init (AList.delete ''extra_fields'' bd
        @ [(''extra_fields'', get_or bd ''extra_fields'' (JObj []))]) = Inr bank"
    "PaymentSlip_init lf (AList.delete ''bank_details'' (AList.delete ''extra_fields'' sd)
        @ [(''extra_fields'', get_or sd ''extra_fields'' (JObj []))]) bank = Inr ps"
proof -
  from assms(1) obtain sd bd ps' where
    g: "get_or nd ''payment_slip'' (JObj []) = JObj sd" and
    b: "get_or (AList.delete ''extra_fields'' sd) ''bank_details'' (JObj []) = JObj bd" and
    a: "payment_slip_arg lf
        (case map_of nd ''payment_slip'' of None \<Rightarrow> JNull
         | Some v \<Rightarrow> JObj (AList.delete ''bank_details'' (AList.delete ''extra_fields'' sd)))
        (AList.delete ''bank_details'' (AList.delete ''extra_fields'' sd))
        (get_or sd ''extra_fields'' (JObj []))
        (AList.delete ''extra_fields'' bd)
        (get_or bd ''extra_fields'' (JObj [])) = Inr ps'" and
    "payment_slip r = ps'"
    by (elim reconcile_InrE) (auto dest: InvoiceData_init_Inr(5))
  with assms(2) have ps': "ps' = Some ps" by simp
  from a ps' have t: "py_truthy (case map_of nd ''payment_slip'' of None \<Rightarrow> JNull
         | Some v \<Rightarrow> JObj (AList.delete ''bank_details'' (AList.delete ''extra_fields'' sd)))"
    by (auto simp: payment_slip_arg_def split: if_splits)
  then have "map_of nd ''payment_slip'' \<noteq> None" by (auto split: option.splits)
  with get_or_JObj [OF g] have m: "map_of nd ''payment_slip'' = Some (JObj sd)" by auto
  from a ps' t obtain bank where
    "BankDetails_init (AList.delete ''extra_fields'' bd
        @ [(''extra_fields'', get_or bd ''extra_fields'' (JObj []))]) = Inr bank"
    "PaymentSlip_init lf (AList.delete ''bank_details'' (AList.delete ''extra_fields'' sd)
        @ [(''extra_fields'', get_or sd ''extra_fields'' (JObj []))]) bank = Inr ps"
    by (auto simp: payment_slip_arg_def split: if_splits sum.splits)
  with m b show thesis using that by blast
qed

lemma reconcile_line_item_at:
  assumes "reconcile lf (JObj nd) = Inr r"
    and "map_of nd ''line_items'' = Some (JArr xs)" and "i < length xs"
  shows "i < length (InvoiceData.line_items r)"
    and "normalize_line_item lf (xs ! i) = Inr (InvoiceData.line_items r ! i)"
proof -
  have eq: "map (normalize_line_item lf) xs = map Inr (InvoiceData.line_items r)"
    using assms(1,2) by (rule reconcile_line_items)
  then have len: "length (InvoiceData.line_items r) = length xs"
    by (metis length_map)
  with assms(3) show "i < length (InvoiceData.line_items r)" by simp
  show "normalize_line_item lf (xs ! i) = Inr (InvoiceData.line_items r ! i)"
    using arg_cong [OF eq, of "\<lambda>l. l ! i"] assms(3) len by simp
qed

lemma normalized_JObj:
  "map_of d k = Some (JObj m) \<Longrightarrow> map_of (normalized d) k = Some (JObj (normalized m))"
  by (simp add: normalized_def map_of_map_value)

lemma normalized_JArr:
  "map_of d k = Some (JArr xs) \<Longrightarrow> map_of (normalized d) k = Some (JArr (map normalize_nulls xs))"
  by (simp add: normalized_def map_of_map_value)

lemma normalize_nulls_normalized:
  "normalize_nulls (JObj d) = JObj (normalized d)"
  by (simp add: normalized_def)



section \<open>Null-synonym normalisation is total over the tree\<close>

text \<open>
  C3. At every position of a value tree, whatever its depth, the normaliser turns a
  string equal to \<^verbatim>\<open>"null"\<close> or \<^verbatim>\<open>"NA"\<close> into the absent value and leaves every
  other scalar as it is; lists keep their length and order, dictionaries keep their
  keys, and no position appears or disappears.
\<close>

theorem normalize_nulls_at_every_depth:
  "value_at (normalize_nulls t) p = map_option normalize_nulls (value_at t p)
   \<and> (\<forall>s. value_at t p = Some (JStr s) \<and> s \<in> set [''null'', ''NA'']
          \<longrightarrow> value_at (normalize_nulls t) p = Some JNull)
   \<and> (\<forall>v. value_at t p = Some v \<and> is_scalar v \<and> v \<noteq> JStr ''null'' \<and> v \<noteq> JStr ''NA''
          \<longrightarrow> value_at (normalize_nulls t) p = Some v)
   \<and> (\<forall>xs. value_at t p = Some (JArr xs)
          \<longrightarrow> value_at (normalize_nulls t) p = Some (JArr (map normalize_nulls xs)))
   \<and> (\<forall>d. value_at t p = Some (JObj d)
          \<longrightarrow> (\<exists>d'. value_at (normalize_nulls t) p = Some (JObj d') \<and> map fst d' = map fst d))
   \<and> (value_at t p = None \<longrightarrow> value_at (normalize_nulls t) p = None)"
proof -
  have keys: "map fst (map (\<lambda>(k, v). (k, normalize_nulls v)) d) = map fst d" for d
    by (induction d) auto
  show ?thesis
    unfolding value_at_normalize
    by (auto simp: normalize_scalar keys)
qed

theorem normalize_nulls_at_every_depth_witness:
  "value_at (JObj [(''a'', JArr [JStr ''NA'', JNum 1, JObj [(''b'', JStr ''null'')]])])
       [Key ''a'', Idx 2, Key ''b''] = Some (JStr ''null'')
   \<and> value_at (normalize_nulls
         (JObj [(''a'', JArr [JStr ''NA'', JNum 1, JObj [(''b'', JStr ''null'')]])]))
       [Key ''a'', Idx 2, Key ''b''] = Some JNull
   \<and> value_at (normalize_nulls
         (JObj [(''a'', JArr [JStr ''NA'', JNum 1, JObj [(''b'', JStr ''null'')]])]))
       [Key ''a'', Idx 0] = Some JNull
   \<and> value_at (normalize_nulls
         (JObj [(''a'', JArr [JStr ''NA'', JNum 1, JObj [(''b'', JStr ''null'')]])]))
       [Key ''a'', Idx 1] = Some (JNum 1)
   \<and> value_at (normalize_nulls
         (JObj [(''a'', JArr [JStr ''NA'', JNum 1, JObj [(''b'', JStr ''null'')]])]))
       [Key ''a''] = Some (JArr [JNull, JNum 1, JObj [(''b'', JNull)]])
   \<and> value_at (normalize_nulls
         (JObj [(''a'', JArr [JStr ''NA'', JNum 1, JObj [(''b'', JStr ''null'')]])]))
       [Key ''z''] = None"
  using
    normalize_nulls_at_every_depth
      [of "JObj [(''a'', JArr [JStr ''NA'', JNum 1, JObj [(''b'', JStr ''null'')]])]"
          "[Key ''a'', Idx 2, Key ''b'']"]
    normalize_nulls_at_every_depth
      [of "JObj [(''a'', JArr [JStr ''NA'', JNum 1, JObj [(''b'', JStr ''null'')]])]"
          "[Key ''a'', Idx 0]"]
    normalize_nulls_at_every_depth
      [of "JObj [(''a'', JArr [JStr ''NA'', JNum 1, JObj [(''b'', JStr ''null'')]])]"
          "[Key ''a'', Idx 1]"]
    normalize_nulls_at_every_depth
      [of "JObj [(''a'', JArr [JStr ''NA'', JNum 1, JObj [(''b'', JStr ''null'')]])]"
          "[Key ''a'']"]
    normalize_nulls_at_every_depth
      [of "JObj [(''a'', JArr [JStr ''NA'', JNum 1, JObj [(''b'', JStr ''null'')]])]"
          "[Key ''z'']"]
  by simp


section \<open>The cleaner removes the commas between digits\<close>

lemma quoted_total_decodes:
  "json_loads (invoice_text party_text ''\"1,234.56\"'' [])
     = Some (invoice_tree party_tree (JStr ''1,234.56'') [])"
  by code_simp

lemma quoted_total_cleaned_decodes:
  "json_loads (preprocess_json (invoice_text party_text ''\"1,234.56\"'' []))
     = Some (invoice_tree party_tree (JStr ''1234.56'') [])"
  by code_simp

lemma reconcile_quoted_total:
  assumes "lf (JStr ''1234.56'') = Some x"
  shows "\<exists>r. reconcile lf (normalize_nulls (invoice_tree party_tree (JStr ''1234.56'') [])) = Inr r
             \<and> Totals.grand_total (InvoiceData.totals r) = Some x"
  using assms
  by (simp add: invoice_tree_def party_tree_def reconcile_def get_or_def
      normalize_additional_metadata_def payment_slip_arg_def
      InvoiceMetadata_init_def Totals_init_def VendorDetails_init_def
      CustomerDetails_init_def InvoiceData_init_def Let_def)

text \<open>
  C4. The cleaner keeps exactly the positions of the text that are not a comma
  between two digits, in order: a comma is deleted if and only if a digit stands
  immediately before it and a digit immediately after it. The rule does not look at
  quotes, so \<^verbatim>\<open>"12,34 Main St"\<close> becomes \<^verbatim>\<open>"1234 Main St"\<close>; and a response whose grand
  total is the quoted literal \<^verbatim>\<open>"1,234.56"\<close> is parsed into a record whose grand total
  is the number 1234.56, given that the float coercion reads the string
  \<^verbatim>\<open>"1234.56"\<close> as that number.
\<close>

theorem preprocess_json_removes_digit_commas:
  "preprocess_json s = map (nth s) (kept_positions s)
   \<and> preprocess_json ''\"12,34 Main St\"'' = ''\"1234 Main St\"''
   \<and> (lf (JStr ''1234.56'') = Some (123456 / 100) \<longrightarrow>
        (\<exists>r. parse_gpt_response lf (invoice_text party_text ''\"1,234.56\"'' []) = Inr r
             \<and> Totals.grand_total (InvoiceData.totals r) = Some (123456 / 100)))"
proof (intro conjI impI)
  show "preprocess_json s = map (nth s) (kept_positions s)"
    by (rule preprocess_json_positions)
  show "preprocess_json ''\"12,34 Main St\"'' = ''\"1234 Main St\"''"
    by (simp add: preprocess_json_def is_digit_def)
  assume "lf (JStr ''1234.56'') = Some (123456 / 100)"
  from reconcile_quoted_total [of lf "123456 / 100", OF this]
  show "\<exists>r. parse_gpt_response lf (invoice_text party_text ''\"1,234.56\"'' []) = Inr r
             \<and> Totals.grand_total (InvoiceData.totals r) = Some (123456 / 100)"
    by (auto simp: parse_gpt_response_def try_body_def quoted_total_decodes
        quoted_total_cleaned_decodes)
qed

theorem preprocess_json_removes_digit_commas_witness:
  "preprocess_json ''[1,234, 5,x]'' = ''[1234, 5,x]''
   \<and> map (nth ''[1,234, 5,x]'') (kept_positions ''[1,234, 5,x]'') = ''[1234, 5,x]''
   \<and> decimal_float (JStr ''1234.56'') = Some (123456 / 100)
   \<and> (\<exists>r. parse_gpt_response decimal_float (invoice_text party_text ''\"1,234.56\"'' []) = Inr r
           \<and> Totals.grand_total (InvoiceData.totals r) = Some (123456 / 100))"
proof -
  have c: "decimal_float (JStr ''1234.56'') = Some (123456 / 100)"
    by code_simp
  have p: "preprocess_json ''[1,234, 5,x]'' = ''[1234, 5,x]''"
    by (simp add: preprocess_json_def is_digit_def)
  from preprocess_json_removes_digit_commas [of "''[1,234, 5,x]''" decimal_float] c p
  show ?thesis by simp
qed


section \<open>Decoding before cleaning\<close>

lemma unquoted_total_decodes:
  "json_loads (invoice_text party_text ''1,234.56'' []) = None
   \<and> json_loads (preprocess_json (invoice_text party_text ''1,234.56'' []))
       = Some (invoice_tree party_tree (JNum (123456 / 100)) [])"
  by code_simp

text \<open>
  C5. The claim: parsing raises the malformed-JSON error exactly when the cleaned text
  is not valid JSON. The code decodes the response once before the cleaner runs
  (line 393) and discards the result: for the response whose grand total is the
  unquoted \<^verbatim>\<open>1,234.56\<close> the cleaned text decodes to the invoice with grand total
  1234.56, the text as received does not decode, and the parse function answers with
  the invalid-JSON error.
\<close>

theorem decode_precedes_cleaning:
  "json_loads (preprocess_json (invoice_text party_text ''1,234.56'' []))
     = Some (invoice_tree party_tree (JNum (123456 / 100)) [])
   \<and> json_loads (invoice_text party_text ''1,234.56'' []) = None
   \<and> parse_gpt_response lf (invoice_text party_text ''1,234.56'' [])
       = Inl \<lparr>status_code = 500, detail = ''Received invalid JSON from GPT.''\<rparr>"
  using unquoted_total_decodes
  by (simp add: parse_gpt_response_def try_body_def)


section \<open>Line items\<close>

lemma example_reconciled:
  "reconcile decimal_float (normalize_nulls (JObj example_full)) = Inr example_record"
  by code_simp

text \<open>
  C8. When a record is returned for an input whose \<^verbatim>\<open>line_items\<close> entry is a list,
  the record has as many line items as the list has elements, and the line item at
  each index is the one the loop body builds from the element at that index.
\<close>

theorem line_items_keep_input_order:
  assumes "reconcile lf (normalize_nulls (JObj d)) = Inr r"
    and "map_of d ''line_items'' = Some (JArr xs)"
  shows "length (InvoiceData.line_items r) = length xs
     \<and> (\<forall>i<length xs. normalize_line_item lf (normalize_nulls (xs ! i))
            = Inr (InvoiceData.line_items r ! i))"
proof -
  let ?nd = "map (\<lambda>(k, v). (k, normalize_nulls v)) d"
  have "map_of ?nd ''line_items'' = Some (JArr (map normalize_nulls xs))"
    using assms(2) by (simp add: map_of_map_value)
  with assms(1) have eq: "map (normalize_line_item lf) (map normalize_nulls xs)
      = map Inr (InvoiceData.line_items r)"
    by (intro reconcile_line_items) simp_all
  then have len: "length (InvoiceData.line_items r) = length xs"
    by (metis length_map)
  moreover have "normalize_line_item lf (normalize_nulls (xs ! i))
      = Inr (InvoiceData.line_items r ! i)" if "i < length xs" for i
    using arg_cong [OF eq, of "\<lambda>l. l ! i"] that len by simp
  ultimately show ?thesis by blast
qed

theorem line_items_keep_input_order_witness:
  "reconcile decimal_float (normalize_nulls (JObj example_full)) = Inr example_record
   \<and> map_of example_full ''line_items''
       = Some (JArr [JObj (example_item ''Widget''), JObj (example_item ''Gadget'')])
   \<and> length (InvoiceData.line_items example_record) = 2
   \<and> normalize_line_item decimal_float (normalize_nulls (JObj (example_item ''Widget'')))
       = Inr (InvoiceData.line_items example_record ! 0)
   \<and> normalize_line_item decimal_float (normalize_nulls (JObj (example_item ''Gadget'')))
       = Inr (InvoiceData.line_items example_record ! 1)"
proof -
  have m: "map_of example_full ''line_items''
      = Some (JArr [JObj (example_item ''Widget''), JObj (example_item ''Gadget'')])"
    by (simp add: example_full_def example_invoice_def)
  note t = line_items_keep_input_order [OF example_reconciled m]
  from t [THEN conjunct2, THEN spec, of 0] t [THEN conjunct2, THEN spec, of 1]
    t [THEN conjunct1] example_reconciled m
  show ?thesis by simp
qed


section \<open>The root overflow map\<close>

lemma filter_keys_map_values:
  "filter (\<lambda>(k, v). P k) (map (\<lambda>(k, v). (k, f v)) d)
     = map (\<lambda>(k, v). (k, f v)) (filter (\<lambda>(k, v). P k) d)"
  by (induction d) auto

text \<open>
  C2, as stated: every top-level key of the decoded map that is not a declared field
  is in the root overflow map with its original value. It fails where the value
  contains a null synonym: the decoded entry \<^verbatim>\<open>"page_count": "NA"\<close> is placed in the
  overflow map with the absent value, because the whole tree is normalised before the
  cross-check reads it.
\<close>

theorem root_overflow_original_value_counterexample:
  "map_of (example_invoice (JObj example_vendor) [(''page_count'', JStr ''NA'')]) ''page_count''
     = Some (JStr ''NA'')
   \<and> ''page_count'' \<notin> set model_fields
   \<and> \<not> isl (reconcile decimal_float (normalize_nulls
         (JObj (example_invoice (JObj example_vendor) [(''page_count'', JStr ''NA'')]))))
   \<and> InvoiceData.extra_fields (projr (reconcile decimal_float (normalize_nulls
         (JObj (example_invoice (JObj example_vendor) [(''page_count'', JStr ''NA'')])))))
       = Some [(''page_count'', JNull)]"
  by code_simp

text \<open>
  C2, amended. When a record is returned, its root overflow map consists exactly of
  the top-level entries of the decoded map whose key is not a declared field of the
  invoice record, in the order of the input, each with its null-normalised value.
\<close>

theorem root_overflow_holds_undeclared_keys:
  assumes "reconcile lf (normalize_nulls (JObj d)) = Inr r"
  shows "InvoiceData.extra_fields r
     = Some (map (\<lambda>(k, v). (k, normalize_nulls v))
              (filter (\<lambda>(k, v). k \<notin> set model_fields) d))"
proof -
  let ?nd = "map (\<lambda>(k, v). (k, normalize_nulls v)) d"
  from assms have "reconcile lf (JObj ?nd) = Inr r" by simp
  then have "InvoiceData.extra_fields r
      = Some (filter (\<lambda>(k, v). k \<notin> set model_fields) ?nd)"
    by (elim reconcile_InrE) (auto dest: InvoiceData_init_Inr(7))
  then show ?thesis by (simp only: filter_keys_map_values)
qed

theorem root_overflow_holds_undeclared_keys_witness:
  "reconcile decimal_float (normalize_nulls (JObj example_full)) = Inr example_record
   \<and> InvoiceData.extra_fields example_record = Some [(''page_count'', JNum 3)]"
proof -
  have "map (\<lambda>(k, v). (k, normalize_nulls v))
          (filter (\<lambda>(k, v). k \<notin> set model_fields) example_full) = [(''page_count'', JNum 3)]"
    by code_simp
  with root_overflow_holds_undeclared_keys [OF example_reconciled] example_reconciled
  show ?thesis by simp
qed


section \<open>Overflow maps of the nested records\<close>

lemma metadata_overflow:
  assumes "reconcile lf (JObj nd) = Inr r" and "map_of nd ''invoice_metadata'' = Some (JObj m)"
  shows "InvoiceMetadata.extra_fields (invoice_metadata r) = own_extra_fields m"
proof -
  from assms(1) obtain md kw where
    "map_of nd ''invoice_metadata'' = Some (JObj md)"
    "InvoiceMetadata_init kw = Inr (invoice_metadata r)"
    "map_of kw ''extra_fields'' = Some (get_or md ''extra_fields'' (JObj []))"
    by (rule reconcile_metadata) blast
  with assms(2) show ?thesis
    using InvoiceMetadata_init_Inr(7) [of kw "invoice_metadata r"]
    by (auto dest: Optional_Dict_popped)
qed

lemma vendor_overflow:
  assumes "reconcile lf (JObj nd) = Inr r" and "map_of nd ''invoice_metadata'' = Some (JObj m)"
    and "map_of m ''vendor_details'' = Some (JObj vd)"
  shows "VendorDetails.extra_fields (vendor_details (invoice_metadata r)) = own_extra_fields vd"
    and "fields_bound vd (VendorDetails_scalars (vendor_details (invoice_metadata r)))"
proof -
  from assms(1,2) obtain vd' where
    "map_of m ''vendor_details'' = Some (JObj vd')"
    "VendorDetails_init vd' = Inr (vendor_details (invoice_metadata r))"
    by (rule reconcile_vendor)
  with assms(3) have i: "VendorDetails_init vd = Inr (vendor_details (invoice_metadata r))"
    by simp
  show "VendorDetails.extra_fields (vendor_details (invoice_metadata r)) = own_extra_fields vd"
    using VendorDetails_init_Inr(5) [OF i] by (rule Optional_Dict_own)
  show "fields_bound vd (VendorDetails_scalars (vendor_details (invoice_metadata r)))"
    using VendorDetails_init_Inr(1-4) [OF i]
    by (auto simp: fields_bound_def VendorDetails_scalars_def dest!: Optional_str_Inr)
qed

lemma customer_overflow:
  assumes "reconcile lf (JObj nd) = Inr r" and "map_of nd ''invoice_metadata'' = Some (JObj m)"
    and "map_of m ''customer_details'' = Some (JObj cd)"
  shows "CustomerDetails.extra_fields (customer_details (invoice_metadata r))
      = own_extra_fields cd"
    and "fields_bound cd (CustomerDetails_scalars (customer_details (invoice_metadata r)))"
proof -
  from assms(1,2) obtain cd' where
    "map_of m ''customer_details'' = Some (JObj cd')"
    "CustomerDetails_init cd' = Inr (customer_details (invoice_metadata r))"
    by (rule reconcile_customer)
  with assms(3) have i: "CustomerDetails_init cd = Inr (customer_details (invoice_metadata r))"
    by simp
  show "CustomerDetails.extra_fields (customer_details (invoice_metadata r))
      = own_extra_fields cd"
    using CustomerDetails_init_Inr(5) [OF i] by (rule Optional_Dict_own)
  show "fields_bound cd (CustomerDetails_scalars (customer_details (invoice_metadata r)))"
    using CustomerDetails_init_Inr(1-4) [OF i]
    by (auto simp: fields_bound_def CustomerDetails_scalars_def dest!: Optional_str_Inr)
qed

lemma line_item_overflow:
  assumes "reconcile lf (JObj nd) = Inr r"
    and "map_of nd ''line_items'' = Some (JArr xs)" and "i < length xs" and "xs ! i = JObj it"
  shows "LineItem.extra_fields (InvoiceData.line_items r ! i) = own_extra_fields it"
proof -
  from reconcile_line_item_at(2) [OF assms(1-3)] assms(4)
  have "normalize_line_item lf (JObj it) = Inr (InvoiceData.line_items r ! i)" by simp
  then obtain kw where "LineItem_init lf kw = Inr (InvoiceData.line_items r ! i)"
    "map_of kw ''extra_fields'' = Some (get_or it ''extra_fields'' (JObj []))"
    by (rule normalize_line_item_Inr) blast
  then show ?thesis
    using LineItem_init_Inr(13) [of lf kw "InvoiceData.line_items r ! i"]
    by (auto dest: Optional_Dict_popped)
qed

lemma totals_overflow:
  assumes "reconcile lf (JObj nd) = Inr r" and "map_of nd ''totals'' = Some (JObj t)"
  shows "Totals.extra_fields (InvoiceData.totals r) = own_extra_fields t"
proof -
  from assms(1) obtain td where "map_of nd ''totals'' = Some (JObj td)"
    "Totals_init lf (AList.delete ''extra_fields'' td
        @ [(''extra_fields'', get_or td ''extra_fields'' (JObj []))]) = Inr (InvoiceData.totals r)"
    by (rule reconcile_totals)
  with assms(2) show ?thesis
    using Totals_init_Inr(8) [of lf "AList.delete ''extra_fields'' t
        @ [(''extra_fields'', get_or t ''extra_fields'' (JObj []))]" "InvoiceData.totals r"]
    unfolding map_of_popped by (auto dest: Optional_Dict_popped)
qed

lemma payment_slip_levels:
  assumes "reconcile lf (JObj nd) = Inr r" and "map_of nd ''payment_slip'' = Some (JObj p)"
    and "InvoiceData.payment_slip r = Some ps"
  obtains bd bank where
    "get_or (AList.delete ''extra_fields'' p) ''bank_details'' (JObj []) = JObj bd"
    "BankDetails_init (AList.delete ''extra_fields'' bd
        @ [(''extra_fields'', get_or bd ''extra_fields'' (JObj []))]) = Inr bank"
    "PaymentSlip_init lf (AList.delete ''bank_details'' (AList.delete ''extra_fields'' p)
        @ [(''extra_fields'', get_or p ''extra_fields'' (JObj []))]) bank = Inr ps"
proof -
  from assms(1,3) obtain sd bd bank where
    "map_of nd ''payment_slip'' = Some (JObj sd)"
    "get_or (AList.delete ''extra_fields'' sd) ''bank_details'' (JObj []) = JObj bd"
    "BankDetails_init (AList.delete ''extra_fields'' bd
        @ [(''extra_fields'', get_or bd ''extra_fields'' (JObj []))]) = Inr bank"
    "PaymentSlip_init lf (AList.delete ''bank_details'' (AList.delete ''extra_fields'' sd)
        @ [(''extra_fields'', get_or sd ''extra_fields'' (JObj []))]) bank = Inr ps"
    by (rule reconcile_payment_slip)
  with assms(2) show thesis using that by simp
qed

lemma map_of_popped2:
  "map_of (AList.delete k2 (AList.delete k d) @ [(k, v)]) k'
     = (if k' = k then Some v else if k' = k2 then None else map_of d k')"
  by (simp add: map_of_append AList.delete_conv' map_add_def split: option.splits)

lemma payment_slip_overflow:
  assumes "reconcile lf (JObj nd) = Inr r" and "map_of nd ''payment_slip'' = Some (JObj p)"
    and "InvoiceData.payment_slip r = Some ps"
  shows "PaymentSlip.extra_fields ps = own_extra_fields p"
proof -
  from assms obtain bank where
    "PaymentSlip_init lf (AList.delete ''bank_details'' (AList.delete ''extra_fields'' p)
        @ [(''extra_fields'', get_or p ''extra_fields'' (JObj []))]) bank = Inr ps"
    by (rule payment_slip_levels)
  from PaymentSlip_init_Inr(5) [OF this] show ?thesis
    unfolding map_of_popped2 by (auto dest: Optional_Dict_popped)
qed

lemma bank_details_overflow:
  assumes "reconcile lf (JObj nd) = Inr r" and "map_of nd ''payment_slip'' = Some (JObj p)"
    and "InvoiceData.payment_slip r = Some ps"
    and "map_of p ''bank_details'' = Some (JObj b)" and "PaymentSlip.bank_details ps = Some bk"
  shows "BankDetails.extra_fields bk = own_extra_fields b"
proof -
  from assms(1-3) obtain bd bank where
    g: "get_or (AList.delete ''extra_fields'' p) ''bank_details'' (JObj []) = JObj bd" and
    bi: "BankDetails_init (AList.delete ''extra_fields'' bd
        @ [(''extra_fields'', get_or bd ''extra_fields'' (JObj []))]) = Inr bank" and
    pi: "PaymentSlip_init lf (AList.delete ''bank_details'' (AList.delete ''extra_fields'' p)
        @ [(''extra_fields'', get_or p ''extra_fields'' (JObj []))]) bank = Inr ps"
    by (rule payment_slip_levels)
  from g assms(4) have "bd = b" by (simp add: get_or_def AList.delete_conv')
  moreover from PaymentSlip_init_Inr(4) [OF pi] assms(5) have "bank = bk" by simp
  ultimately show ?thesis
    using BankDetails_init_Inr(4) [OF bi]
    unfolding map_of_popped by (auto dest: Optional_Dict_popped)
qed

lemma vendor_foo_decodes:
  "json_loads (invoice_text vendor_foo_text ''2500'' [])
     = Some (invoice_tree vendor_foo_tree (JNum 2500) [])
   \<and> preprocess_json (invoice_text vendor_foo_text ''2500'' [])
       = invoice_text vendor_foo_text ''2500'' []"
  by code_simp

text \<open>
  C1, as stated: a key of the \<^verbatim>\<open>vendor_details\<close> map that is not a declared field is
  placed in the Vendor record's overflow map. It fails: for the response whose vendor
  map holds the four declared fields and \<^verbatim>\<open>"foo": "bar"\<close>, a record is returned and the
  overflow map of its Vendor record is empty. The constructor ignores keyword
  arguments that name no field, and nothing in the parse function routes them.
\<close>

theorem vendor_undeclared_key_counterexample:
  "json_loads (preprocess_json (invoice_text vendor_foo_text ''2500'' []))
     = Some (invoice_tree vendor_foo_tree (JNum 2500) [])
   \<and> value_at (invoice_tree vendor_foo_tree (JNum 2500) [])
        [Key ''invoice_metadata'', Key ''vendor_details'', Key ''foo''] = Some (JStr ''bar'')
   \<and> \<not> isl (parse_gpt_response decimal_float (invoice_text vendor_foo_text ''2500'' []))
   \<and> VendorDetails.extra_fields (vendor_details (invoice_metadata
        (projr (parse_gpt_response decimal_float (invoice_text vendor_foo_text ''2500'' [])))))
       = Some []"
proof -
  have "\<not> isl (reconcile decimal_float
           (normalize_nulls (invoice_tree vendor_foo_tree (JNum 2500) [])))
     \<and> VendorDetails.extra_fields (vendor_details (invoice_metadata
          (projr (reconcile decimal_float
             (normalize_nulls (invoice_tree vendor_foo_tree (JNum 2500) []))))))
       = Some []
     \<and> value_at (invoice_tree vendor_foo_tree (JNum 2500) [])
        [Key ''invoice_metadata'', Key ''vendor_details'', Key ''foo''] = Some (JStr ''bar'')"
    by code_simp
  with vendor_foo_decodes show ?thesis
    by (auto simp: parse_gpt_response_def try_body_def split: sum.splits)
qed

text \<open>
  C1, amended. When a record is returned for a decoded map, every nested record is
  built from its own input map alone, after null normalisation: its overflow map is
  the null-normalised value of that map's own \<^verbatim>\<open>extra_fields\<close> entry (empty when
  the key is missing, absent when the entry is null or a null synonym), and no other
  key of the map is placed in it. This holds for the metadata, the vendor, the
  customer, every line item, the totals, the payment slip and the bank details. Each
  declared field of the Vendor and Customer records holds the null-normalised input
  value of its key. In particular the overflow map of the Vendor record is empty when
  the vendor map has no \<^verbatim>\<open>extra_fields\<close> entry, whatever other keys it has.
\<close>

theorem nested_overflow_is_own_entry:
  assumes "reconcile lf (normalize_nulls (JObj d)) = Inr r"
  shows
    "(\<forall>m. map_of d ''invoice_metadata'' = Some (JObj m) \<longrightarrow>
        InvoiceMetadata.extra_fields (invoice_metadata r) = own_extra_fields (normalized m)
        \<and> (\<forall>vd. map_of m ''vendor_details'' = Some (JObj vd) \<longrightarrow>
              VendorDetails.extra_fields (vendor_details (invoice_metadata r))
                = own_extra_fields (normalized vd)
              \<and> fields_bound (normalized vd)
                  (VendorDetails_scalars (vendor_details (invoice_metadata r)))
              \<and> (map_of vd ''extra_fields'' = None \<longrightarrow>
                   VendorDetails.extra_fields (vendor_details (invoice_metadata r)) = Some []))
        \<and> (\<forall>cd. map_of m ''customer_details'' = Some (JObj cd) \<longrightarrow>
              CustomerDetails.extra_fields (customer_details (invoice_metadata r))
                = own_extra_fields (normalized cd)
              \<and> fields_bound (normalized cd)
                  (CustomerDetails_scalars (customer_details (invoice_metadata r)))))
     \<and> (\<forall>xs i it. map_of d ''line_items'' = Some (JArr xs) \<and> i < length xs \<and> xs ! i = JObj it
          \<longrightarrow> i < length (InvoiceData.line_items r)
              \<and> LineItem.extra_fields (InvoiceData.line_items r ! i)
                  = own_extra_fields (normalized it))
     \<and> (\<forall>t. map_of d ''totals'' = Some (JObj t) \<longrightarrow>
          Totals.extra_fields (InvoiceData.totals r) = own_extra_fields (normalized t))
     \<and> (\<forall>p ps. map_of d ''payment_slip'' = Some (JObj p) \<and> InvoiceData.payment_slip r = Some ps
          \<longrightarrow> PaymentSlip.extra_fields ps = own_extra_fields (normalized p)
              \<and> (\<forall>b bk. map_of p ''bank_details'' = Some (JObj b)
                      \<and> PaymentSlip.bank_details ps = Some bk
                    \<longrightarrow> BankDetails.extra_fields bk = own_extra_fields (normalized b)))"
proof -
  from assms have r: "reconcile lf (JObj (normalized d)) = Inr r"
    by (simp only: normalize_nulls_normalized)
  have metadata: "InvoiceMetadata.extra_fields (invoice_metadata r)
      = own_extra_fields (normalized m)"
    if "map_of d ''invoice_metadata'' = Some (JObj m)" for m
    using r normalized_JObj [OF that] by (rule metadata_overflow)
  have vendor: "VendorDetails.extra_fields (vendor_details (invoice_metadata r))
      = own_extra_fields (normalized vd)"
    "fields_bound (normalized vd) (VendorDetails_scalars (vendor_details (invoice_metadata r)))"
    if "map_of d ''invoice_metadata'' = Some (JObj m)"
      and "map_of m ''vendor_details'' = Some (JObj vd)" for m vd
    using vendor_overflow [OF r normalized_JObj [OF that(1)] normalized_JObj [OF that(2)]]
    by simp_all
  have vendor_empty: "VendorDetails.extra_fields (vendor_details (invoice_metadata r)) = Some []"
    if "map_of d ''invoice_metadata'' = Some (JObj m)"
      and "map_of m ''vendor_details'' = Some (JObj vd)"
      and "map_of vd ''extra_fields'' = None" for m vd
    using vendor(1) [OF that(1,2)] that(3)
    by (simp add: own_extra_fields_def normalized_def map_of_map_value)
  have customer: "CustomerDetails.extra_fields (customer_details (invoice_metadata r))
      = own_extra_fields (normalized cd)"
    "fields_bound (normalized cd)
       (CustomerDetails_scalars (customer_details (invoice_metadata r)))"
    if "map_of d ''invoice_metadata'' = Some (JObj m)"
      and "map_of m ''customer_details'' = Some (JObj cd)" for m cd
    using customer_overflow [OF r normalized_JObj [OF that(1)] normalized_JObj [OF that(2)]]
    by simp_all
  have item: "i < length (InvoiceData.line_items r)"
    "LineItem.extra_fields (InvoiceData.line_items r ! i) = own_extra_fields (normalized it)"
    if "map_of d ''line_items'' = Some (JArr xs)" and "i < length xs" and "xs ! i = JObj it"
    for xs i it
  proof -
    have l: "i < length (map normalize_nulls xs)" using that(2) by simp
    have e: "map normalize_nulls xs ! i = JObj (normalized it)"
      using that(2,3) by (simp add: normalized_def)
    show "i < length (InvoiceData.line_items r)"
      using r normalized_JArr [OF that(1)] l by (rule reconcile_line_item_at(1))
    show "LineItem.extra_fields (InvoiceData.line_items r ! i)
        = own_extra_fields (normalized it)"
      using r normalized_JArr [OF that(1)] l e by (rule line_item_overflow)
  qed
  have totals: "Totals.extra_fields (InvoiceData.totals r) = own_extra_fields (normalized t)"
    if "map_of d ''totals'' = Some (JObj t)" for t
    using r normalized_JObj [OF that] by (rule totals_overflow)
  have slip: "PaymentSlip.extra_fields ps = own_extra_fields (normalized p)"
    if "map_of d ''payment_slip'' = Some (JObj p)" and "InvoiceData.payment_slip r = Some ps"
    for p ps
    using r normalized_JObj [OF that(1)] that(2) by (rule payment_slip_overflow)
  have bank: "BankDetails.extra_fields bk = own_extra_fields (normalized b)"
    if "map_of d ''payment_slip'' = Some (JObj p)" and "InvoiceData.payment_slip r = Some ps"
      and "map_of p ''bank_details'' = Some (JObj b)" and "PaymentSlip.bank_details ps = Some bk"
    for p ps b bk
    using r normalized_JObj [OF that(1)] that(2) normalized_JObj [OF that(3)] that(4)
    by (rule bank_details_overflow)
  note levels = metadata vendor vendor_empty customer item totals slip bank
  show ?thesis
    by (intro conjI allI impI; (elim conjE)?; (rule levels; assumption))
qed


lemma example_overflow_reconciled:
  "reconcile decimal_float
     (normalize_nulls (JObj (example_invoice (JObj example_vendor_overflow) [])))
   = Inr example_overflow_record"
  by code_simp

theorem nested_overflow_is_own_entry_witness:
  "reconcile decimal_float (normalize_nulls (JObj example_full)) = Inr example_record
   \<and> map_of example_full ''invoice_metadata''
       = Some (JObj (example_metadata (JObj example_vendor)))
   \<and> InvoiceMetadata.extra_fields (invoice_metadata example_record) = Some []
   \<and> map_of (example_metadata (JObj example_vendor)) ''vendor_details''
       = Some (JObj example_vendor)
   \<and> map_of example_vendor ''extra_fields'' = None
   \<and> VendorDetails.extra_fields (vendor_details (invoice_metadata example_record)) = Some []
   \<and> fields_bound (normalized example_vendor)
        (VendorDetails_scalars (vendor_details (invoice_metadata example_record)))
   \<and> map_of (example_metadata (JObj example_vendor)) ''customer_details''
       = Some (JObj example_customer)
   \<and> map_of example_customer ''contact'' = Some (JStr ''NA'')
   \<and> CustomerDetails.contact (customer_details (invoice_metadata example_record)) = None
   \<and> CustomerDetails.extra_fields (customer_details (invoice_metadata example_record))
       = Some [(''segment'', JStr ''retail'')]
   \<and> fields_bound (normalized example_customer)
        (CustomerDetails_scalars (customer_details (invoice_metadata example_record)))
   \<and> map_of example_full ''line_items''
       = Some (JArr [JObj (example_item ''Widget''), JObj (example_item ''Gadget'')])
   \<and> LineItem.extra_fields (InvoiceData.line_items example_record ! 1) = Some []
   \<and> map_of example_full ''totals'' = Some (JObj example_totals)
   \<and> Totals.extra_fields (InvoiceData.totals example_record)
       = Some [(''rounding'', JStr ''none'')]
   \<and> map_of example_full ''payment_slip'' = Some (JObj example_slip)
   \<and> InvoiceData.payment_slip example_record
       = Some (the (InvoiceData.payment_slip example_record))
   \<and> PaymentSlip.extra_fields (the (InvoiceData.payment_slip example_record)) = Some []
   \<and> map_of example_slip ''bank_details'' = Some (JObj example_bank)
   \<and> PaymentSlip.bank_details (the (InvoiceData.payment_slip example_record))
       = Some (the (PaymentSlip.bank_details (the (InvoiceData.payment_slip example_record))))
   \<and> BankDetails.extra_fields
        (the (PaymentSlip.bank_details (the (InvoiceData.payment_slip example_record))))
       = Some []
   \<and> reconcile decimal_float
        (normalize_nulls (JObj (example_invoice (JObj example_vendor_overflow) [])))
       = Inr example_overflow_record
   \<and> map_of example_vendor_overflow ''foo'' = Some (JStr ''bar'')
   \<and> map_of example_vendor_overflow ''extra_fields''
       = Some (JObj [(''k'', JStr ''NA''), (''foo'', JStr ''baz'')])
   \<and> VendorDetails.extra_fields (vendor_details (invoice_metadata example_overflow_record))
       = Some [(''k'', JNull), (''foo'', JStr ''baz'')]
   \<and> map_of example_vendor_overflow ''name'' = Some (JStr ''NA'')
   \<and> VendorDetails.name (vendor_details (invoice_metadata example_overflow_record)) = None"
proof -
  note t = nested_overflow_is_own_entry [OF example_reconciled]
  note t' = nested_overflow_is_own_entry [OF example_overflow_reconciled]
  have hm: "map_of example_full ''invoice_metadata''
      = Some (JObj (example_metadata (JObj example_vendor)))"
    by code_simp
  have hv: "map_of (example_metadata (JObj example_vendor)) ''vendor_details''
      = Some (JObj example_vendor)"
    by code_simp
  have hn: "map_of example_vendor ''extra_fields'' = None"
    by code_simp
  have hc: "map_of (example_metadata (JObj example_vendor)) ''customer_details''
      = Some (JObj example_customer)"
    by code_simp
  have hl: "map_of example_full ''line_items''
       = Some (JArr [JObj (example_item ''Widget''), JObj (example_item ''Gadget'')])
     \<and> 1 < length [JObj (example_item ''Widget''), JObj (example_item ''Gadget'')]
     \<and> [JObj (example_item ''Widget''), JObj (example_item ''Gadget'')] ! 1
          = JObj (example_item ''Gadget'')"
    by code_simp
  have ht: "map_of example_full ''totals'' = Some (JObj example_totals)"
    by code_simp
  have hp: "map_of example_full ''payment_slip'' = Some (JObj example_slip)
     \<and> InvoiceData.payment_slip example_record
        = Some (the (InvoiceData.payment_slip example_record))"
    by code_simp
  have hb: "map_of example_slip ''bank_details'' = Some (JObj example_bank)
     \<and> PaymentSlip.bank_details (the (InvoiceData.payment_slip example_record))
        = Some (the (PaymentSlip.bank_details (the (InvoiceData.payment_slip example_record))))"
    by code_simp
  have hm': "map_of (example_invoice (JObj example_vendor_overflow) []) ''invoice_metadata''
      = Some (JObj (example_metadata (JObj example_vendor_overflow)))"
    by code_simp
  have hv': "map_of (example_metadata (JObj example_vendor_overflow)) ''vendor_details''
      = Some (JObj example_vendor_overflow)"
    by code_simp
  have own: "own_extra_fields (normalized (example_metadata (JObj example_vendor))) = Some []
     \<and> own_extra_fields (normalized example_customer) = Some [(''segment'', JStr ''retail'')]
     \<and> own_extra_fields (normalized (example_item ''Gadget'')) = Some []
     \<and> own_extra_fields (normalized example_totals) = Some [(''rounding'', JStr ''none'')]
     \<and> own_extra_fields (normalized example_slip) = Some []
     \<and> own_extra_fields (normalized example_bank) = Some []
     \<and> own_extra_fields (normalized example_vendor_overflow)
         = Some [(''k'', JNull), (''foo'', JStr ''baz'')]"
    by code_simp
  have inputs: "map_of example_customer ''contact'' = Some (JStr ''NA'')
     \<and> map_of example_vendor_overflow ''foo'' = Some (JStr ''bar'')
     \<and> map_of example_vendor_overflow ''extra_fields''
         = Some (JObj [(''k'', JStr ''NA''), (''foo'', JStr ''baz'')])
     \<and> map_of example_vendor_overflow ''name'' = Some (JStr ''NA'')
     \<and> map_of (normalized example_vendor_overflow) ''name'' = Some JNull
     \<and> map_of (normalized example_customer) ''contact'' = Some JNull"
    by code_simp
  from t hm have c1: "InvoiceMetadata.extra_fields (invoice_metadata example_record)
      = own_extra_fields (normalized (example_metadata (JObj example_vendor)))"
    by blast
  from t hm hv hn have c2:
    "VendorDetails.extra_fields (vendor_details (invoice_metadata example_record)) = Some []
     \<and> fields_bound (normalized example_vendor)
        (VendorDetails_scalars (vendor_details (invoice_metadata example_record)))"
    by blast
  from t hm hc have c3:
    "CustomerDetails.extra_fields (customer_details (invoice_metadata example_record))
       = own_extra_fields (normalized example_customer)
     \<and> fields_bound (normalized example_customer)
        (CustomerDetails_scalars (customer_details (invoice_metadata example_record)))"
    by blast
  from t hl have c4: "LineItem.extra_fields (InvoiceData.line_items example_record ! 1)
      = own_extra_fields (normalized (example_item ''Gadget''))"
    by blast
  from t ht have c5: "Totals.extra_fields (InvoiceData.totals example_record)
      = own_extra_fields (normalized example_totals)"
    by blast
  from t hp have c6:
    "PaymentSlip.extra_fields (the (InvoiceData.payment_slip example_record))
      = own_extra_fields (normalized example_slip)"
    by blast
  from t hp hb have c7: "BankDetails.extra_fields
        (the (PaymentSlip.bank_details (the (InvoiceData.payment_slip example_record))))
      = own_extra_fields (normalized example_bank)"
    by blast
  from t' hm' hv' have c8:
    "VendorDetails.extra_fields (vendor_details (invoice_metadata example_overflow_record))
       = own_extra_fields (normalized example_vendor_overflow)
     \<and> fields_bound (normalized example_vendor_overflow)
        (VendorDetails_scalars (vendor_details (invoice_metadata example_overflow_record)))"
    by blast
  from c3 inputs
  have c9: "CustomerDetails.contact (customer_details (invoice_metadata example_record)) = None"
    by (cases "CustomerDetails.contact (customer_details (invoice_metadata example_record))")
       (simp_all add: fields_bound_def CustomerDetails_scalars_def)
  from c8 inputs
  have c10: "VendorDetails.name (vendor_details (invoice_metadata example_overflow_record))
      = None"
    by (cases "VendorDetails.name (vendor_details (invoice_metadata example_overflow_record))")
       (simp_all add: fields_bound_def VendorDetails_scalars_def)
  from example_reconciled example_overflow_reconciled hm hv hn hc hl ht hp hb own inputs
    c1 c2 c3 c4 c5 c6 c7 c8 c9 c10
  show ?thesis by simp
qed



section \<open>A scalar where a nested record is declared\<close>





























section \<open>A payment slip that is null\<close>

text \<open>
  C10. The claim: when the \<^verbatim>\<open>payment_slip\<close> entry is missing, null or an empty map, the
  returned record has no payment slip. The code does so for the missing entry and for
  the empty map; for \<^verbatim>\<open>null\<close> the \<^verbatim>\<open>get\<close> of line 444 returns \<^verbatim>\<open>None\<close> (the default is
  only for a missing key), the \<^verbatim>\<open>pop\<close> of line 445 raises, and the parse function
  answers with the general error instead of a record.
\<close>

theorem null_payment_slip_raises:
  "json_loads (preprocess_json (invoice_text party_text ''2500'' '', \"payment_slip\": null''))
     = Some (invoice_tree party_tree (JNum 2500) [(''payment_slip'', JNull)])
   \<and> parse_gpt_response decimal_float
        (invoice_text party_text ''2500'' '', \"payment_slip\": null'')
       = Inl \<lparr>status_code = 500, detail = ''An error occurred while parsing GPT response.''\<rparr>
   \<and> \<not> isl (parse_gpt_response decimal_float (invoice_text party_text ''2500'' []))
   \<and> InvoiceData.payment_slip
        (projr (parse_gpt_response decimal_float (invoice_text party_text ''2500'' []))) = None
   \<and> \<not> isl (parse_gpt_response decimal_float
              (invoice_text party_text ''2500'' '', \"payment_slip\": {}''))
   \<and> InvoiceData.payment_slip
        (projr (parse_gpt_response decimal_float
                  (invoice_text party_text ''2500'' '', \"payment_slip\": {}''))) = None"
  by code_simp


section \<open>Absent values\<close>

lemma normalized_lookup:
  "map_of (normalized d) k = map_option normalize_nulls (map_of d k)"
  by (simp add: normalized_def map_of_map_value)

lemma nulls_absent_normalized:
  assumes "\<And>k out. (k, out) \<in> set scalars
    \<Longrightarrow> map_of (normalized m) k = None \<or> map_of (normalized m) k = Some JNull \<Longrightarrow> out = JNull"
  shows "nulls_absent m scalars"
proof -
  have "map_of (normalized m) k = None \<or> map_of (normalized m) k = Some JNull"
    if "null_input (map_of m k)" for k
    using that by (cases "map_of m k") (auto simp: normalized_lookup)
  with assms show ?thesis
    by (auto simp: nulls_absent_def list_all_iff)
qed

lemma Optional_str_null:
  "Optional_str x = Inr y \<Longrightarrow> x = None \<or> x = Some JNull \<Longrightarrow> str_out y = JNull"
  by (auto dest: Optional_str_Inr)

lemma VendorDetails_nulls:
  assumes "VendorDetails_init kw = Inr V" and "(k, out) \<in> set (VendorDetails_scalars V)"
    and "map_of kw k = None \<or> map_of kw k = Some JNull"
  shows "out = JNull"
  using assms(2,3) VendorDetails_init_Inr(1-4) [OF assms(1)]
  by (auto simp: VendorDetails_scalars_def dest: Optional_str_null)

lemma CustomerDetails_nulls:
  assumes "CustomerDetails_init kw = Inr V" and "(k, out) \<in> set (CustomerDetails_scalars V)"
    and "map_of kw k = None \<or> map_of kw k = Some JNull"
  shows "out = JNull"
  using assms(2,3) CustomerDetails_init_Inr(1-4) [OF assms(1)]
  by (auto simp: CustomerDetails_scalars_def dest: Optional_str_null)

lemma BankDetails_nulls:
  assumes "BankDetails_init kw = Inr V" and "(k, out) \<in> set (BankDetails_scalars V)"
    and "map_of kw k = None \<or> map_of kw k = Some JNull"
  shows "out = JNull"
  using assms(2,3) BankDetails_init_Inr(1-3) [OF assms(1)]
  by (auto simp: BankDetails_scalars_def dest: Optional_str_null)

lemma PaymentSlip_nulls:
  assumes "PaymentSlip_init lf kw b = Inr V" and "(k, out) \<in> set (PaymentSlip_scalars V)"
    and "map_of kw k = None \<or> map_of kw k = Some JNull"
  shows "out = JNull"
  using assms(2,3) PaymentSlip_init_Inr(1-3) [OF assms(1)]
  by (auto simp: PaymentSlip_scalars_def dest: Optional_str_null Optional_float_null)

lemma Totals_nulls:
  assumes "Totals_init lf kw = Inr V" and "(k, out) \<in> set (Totals_scalars V)"
    and "map_of kw k = None \<or> map_of kw k = Some JNull"
  shows "out = JNull"
  using assms(2,3) Totals_init_Inr(1-7) [OF assms(1)]
  by (auto simp: Totals_scalars_def dest: Optional_str_null Optional_float_null)

lemma InvoiceMetadata_nulls:
  assumes "InvoiceMetadata_init kw = Inr V" and "(k, out) \<in> set (InvoiceMetadata_scalars V)"
    and "map_of kw k = None \<or> map_of kw k = Some JNull"
  shows "out = JNull"
  using assms(2,3) InvoiceMetadata_init_Inr(1-4) [OF assms(1)]
  by (auto simp: InvoiceMetadata_scalars_def dest: Optional_str_null)

lemma LineItem_nulls:
  assumes "LineItem_init lf kw = Inr V" and "(k, out) \<in> set (LineItem_scalars V)"
    and "map_of kw k = None \<or> map_of kw k = Some JNull"
  shows "out = JNull"
  using assms(2,3) LineItem_init_Inr(1-11) [OF assms(1)]
  by (auto simp: LineItem_scalars_def dest: Optional_str_null Optional_float_null)

lemma root_nulls:
  assumes "reconcile lf (JObj nd) = Inr r" and "(k, out) \<in> set (InvoiceData_scalars r)"
    and "map_of nd k = None \<or> map_of nd k = Some JNull"
  shows "out = JNull"
proof -
  from assms(1) have "Optional_str (Some (get_or nd ''document_type'' JNull))
      = Inr (InvoiceData.document_type r)"
    by (elim reconcile_InrE) (auto dest: InvoiceData_init_Inr(1))
  with assms(2,3) show ?thesis
    by (auto simp: InvoiceData_scalars_def get_or_def dest: Optional_str_null)
qed

lemma root_unstructured:
  assumes "reconcile lf (JObj nd) = Inr r" and "map_of nd ''unstructured_content'' = None"
  shows "InvoiceData.unstructured_content r = Some (Str [])"
proof -
  from assms(1) have "Optional_Union (Some (get_or nd ''unstructured_content'' (JStr [])))
      = Inr (InvoiceData.unstructured_content r)"
    by (elim reconcile_InrE) (auto dest: InvoiceData_init_Inr(6))
  with assms(2) show ?thesis by (simp add: get_or_def)
qed

lemma metadata_nulls:
  assumes "reconcile lf (JObj nd) = Inr r" and "map_of nd ''invoice_metadata'' = Some (JObj m)"
    and "(k, out) \<in> set (InvoiceMetadata_scalars (invoice_metadata r))"
    and "map_of m k = None \<or> map_of m k = Some JNull"
  shows "out = JNull"
proof -
  from assms(1) obtain md kw where
    "map_of nd ''invoice_metadata'' = Some (JObj md)" and
    i: "InvoiceMetadata_init kw = Inr (invoice_metadata r)" and
    "\<forall>k. k \<noteq> ''additional_metadata'' \<longrightarrow> k \<noteq> ''extra_fields'' \<longrightarrow> map_of kw k = map_of md k"
    by (rule reconcile_metadata) blast
  with assms(2) have
    o: "\<And>k. k \<noteq> ''additional_metadata'' \<Longrightarrow> k \<noteq> ''extra_fields'' \<Longrightarrow> map_of kw k = map_of m k"
    by simp
  from assms(3) have "k \<noteq> ''additional_metadata''" "k \<noteq> ''extra_fields''"
    by (auto simp: InvoiceMetadata_scalars_def)
  with o assms(4) have "map_of kw k = None \<or> map_of kw k = Some JNull" by simp
  with i assms(3) show ?thesis by (rule InvoiceMetadata_nulls)
qed

lemma vendor_nulls:
  assumes "reconcile lf (JObj nd) = Inr r" and "map_of nd ''invoice_metadata'' = Some (JObj m)"
    and "map_of m ''vendor_details'' = Some (JObj vd)"
    and "(k, out) \<in> set (VendorDetails_scalars (vendor_details (invoice_metadata r)))"
    and "map_of vd k = None \<or> map_of vd k = Some JNull"
  shows "out = JNull"
proof -
  from assms(1,2) obtain vd' where
    "map_of m ''vendor_details'' = Some (JObj vd')"
    "VendorDetails_init vd' = Inr (vendor_details (invoice_metadata r))"
    by (rule reconcile_vendor)
  with assms(3) have "VendorDetails_init vd = Inr (vendor_details (invoice_metadata r))"
    by simp
  from this assms(4,5) show ?thesis by (rule VendorDetails_nulls)
qed

lemma customer_nulls:
  assumes "reconcile lf (JObj nd) = Inr r" and "map_of nd ''invoice_metadata'' = Some (JObj m)"
    and "map_of m ''customer_details'' = Some (JObj cd)"
    and "(k, out) \<in> set (CustomerDetails_scalars (customer_details (invoice_metadata r)))"
    and "map_of cd k = None \<or> map_of cd k = Some JNull"
  shows "out = JNull"
proof -
  from assms(1,2) obtain cd' where
    "map_of m ''customer_details'' = Some (JObj cd')"
    "CustomerDetails_init cd' = Inr (customer_details (invoice_metadata r))"
    by (rule reconcile_customer)
  with assms(3) have "CustomerDetails_init cd = Inr (customer_details (invoice_metadata r))"
    by simp
  from this assms(4,5) show ?thesis by (rule CustomerDetails_nulls)
qed

lemma line_item_nulls:
  assumes "reconcile lf (JObj nd) = Inr r"
    and "map_of nd ''line_items'' = Some (JArr xs)" and "i < length xs" and "xs ! i = JObj it"
  shows "(k, out) \<in> set (LineItem_scalars (InvoiceData.line_items r ! i))
      \<Longrightarrow> map_of it k = None \<or> map_of it k = Some JNull \<Longrightarrow> out = JNull"
    and "map_of it ''extra_details'' = None \<or> map_of it ''extra_details'' = Some JNull
      \<Longrightarrow> LineItem.extra_details (InvoiceData.line_items r ! i) = Some (Str [])"
proof -
  from reconcile_line_item_at(2) [OF assms(1-3)] assms(4)
  have "normalize_line_item lf (JObj it) = Inr (InvoiceData.line_items r ! i)" by simp
  then obtain kw where i: "LineItem_init lf kw = Inr (InvoiceData.line_items r ! i)" and
    "map_of kw ''extra_fields'' = Some (get_or it ''extra_fields'' (JObj []))" and
    d: "map_of kw ''extra_details'' =
       (if map_of it ''extra_details'' = None \<or> map_of it ''extra_details'' = Some JNull
        then Some (JStr []) else map_of it ''extra_details'')" and
    o: "\<forall>k. k \<noteq> ''extra_details'' \<longrightarrow> k \<noteq> ''extra_fields'' \<longrightarrow> map_of kw k = map_of it k"
    by (rule normalize_line_item_Inr) blast
  show "out = JNull" if s: "(k, out) \<in> set (LineItem_scalars (InvoiceData.line_items r ! i))"
    and n: "map_of it k = None \<or> map_of it k = Some JNull"
  proof -
    from s have "k \<noteq> ''extra_details''" "k \<noteq> ''extra_fields''"
      by (auto simp: LineItem_scalars_def)
    with o n have "map_of kw k = None \<or> map_of kw k = Some JNull" by simp
    with i s show ?thesis by (rule LineItem_nulls)
  qed
  show "LineItem.extra_details (InvoiceData.line_items r ! i) = Some (Str [])"
    if "map_of it ''extra_details'' = None \<or> map_of it ''extra_details'' = Some JNull"
    using LineItem_init_Inr(12) [OF i] d that by auto
qed

lemma totals_nulls:
  assumes "reconcile lf (JObj nd) = Inr r" and "map_of nd ''totals'' = Some (JObj t)"
    and "(k, out) \<in> set (Totals_scalars (InvoiceData.totals r))"
    and "map_of t k = None \<or> map_of t k = Some JNull"
  shows "out = JNull"
proof -
  from assms(1) obtain td where "map_of nd ''totals'' = Some (JObj td)"
    "Totals_init lf (AList.delete ''extra_fields'' td
        @ [(''extra_fields'', get_or td ''extra_fields'' (JObj []))]) = Inr (InvoiceData.totals r)"
    by (rule reconcile_totals)
  with assms(2) have i: "Totals_init lf (AList.delete ''extra_fields'' t
        @ [(''extra_fields'', get_or t ''extra_fields'' (JObj []))]) = Inr (InvoiceData.totals r)"
    by simp
  from assms(3) have "k \<noteq> ''extra_fields''" by (auto simp: Totals_scalars_def)
  with assms(4) have "map_of (AList.delete ''extra_fields'' t
        @ [(''extra_fields'', get_or t ''extra_fields'' (JObj []))]) k = None
     \<or> map_of (AList.delete ''extra_fields'' t
        @ [(''extra_fields'', get_or t ''extra_fields'' (JObj []))]) k = Some JNull"
    unfolding map_of_popped by simp
  with i assms(3) show ?thesis by (rule Totals_nulls)
qed

lemma payment_slip_nulls:
  assumes "reconcile lf (JObj nd) = Inr r" and "map_of nd ''payment_slip'' = Some (JObj p)"
    and "InvoiceData.payment_slip r = Some ps"
    and "(k, out) \<in> set (PaymentSlip_scalars ps)"
    and "map_of p k = None \<or> map_of p k = Some JNull"
  shows "out = JNull"
proof -
  from assms(1-3) obtain bank where
    i: "PaymentSlip_init lf (AList.delete ''bank_details'' (AList.delete ''extra_fields'' p)
        @ [(''extra_fields'', get_or p ''extra_fields'' (JObj []))]) bank = Inr ps"
    by (rule payment_slip_levels)
  from assms(4) have "k \<noteq> ''extra_fields''" "k \<noteq> ''bank_details''"
    by (auto simp: PaymentSlip_scalars_def)
  with assms(5) have "map_of (AList.delete ''bank_details'' (AList.delete ''extra_fields'' p)
        @ [(''extra_fields'', get_or p ''extra_fields'' (JObj []))]) k = None
     \<or> map_of (AList.delete ''bank_details'' (AList.delete ''extra_fields'' p)
        @ [(''extra_fields'', get_or p ''extra_fields'' (JObj []))]) k = Some JNull"
    unfolding map_of_popped2 by simp
  with i assms(4) show ?thesis by (rule PaymentSlip_nulls)
qed

lemma bank_details_nulls:
  assumes "reconcile lf (JObj nd) = Inr r" and "map_of nd ''payment_slip'' = Some (JObj p)"
    and "InvoiceData.payment_slip r = Some ps"
    and "map_of p ''bank_details'' = Some (JObj b)" and "PaymentSlip.bank_details ps = Some bk"
    and "(k, out) \<in> set (BankDetails_scalars bk)"
    and "map_of b k = None \<or> map_of b k = Some JNull"
  shows "out = JNull"
proof -
  from assms(1-3) obtain bd bank where
    g: "get_or (AList.delete ''extra_fields'' p) ''bank_details'' (JObj []) = JObj bd" and
    bi: "BankDetails_init (AList.delete ''extra_fields'' bd
        @ [(''extra_fields'', get_or bd ''extra_fields'' (JObj []))]) = Inr bank" and
    pi: "PaymentSlip_init lf (AList.delete ''bank_details'' (AList.delete ''extra_fields'' p)
        @ [(''extra_fields'', get_or p ''extra_fields'' (JObj []))]) bank = Inr ps"
    by (rule payment_slip_levels)
  from g assms(4) have "bd = b" by (simp add: get_or_def AList.delete_conv')
  moreover from PaymentSlip_init_Inr(4) [OF pi] assms(5) have "bank = bk" by simp
  ultimately have i: "BankDetails_init (AList.delete ''extra_fields'' b
        @ [(''extra_fields'', get_or b ''extra_fields'' (JObj []))]) = Inr bk"
    using bi by simp
  from assms(6) have "k \<noteq> ''extra_fields''" by (auto simp: BankDetails_scalars_def)
  with assms(7) have "map_of (AList.delete ''extra_fields'' b
        @ [(''extra_fields'', get_or b ''extra_fields'' (JObj []))]) k = None
     \<or> map_of (AList.delete ''extra_fields'' b
        @ [(''extra_fields'', get_or b ''extra_fields'' (JObj []))]) k = Some JNull"
    unfolding map_of_popped by simp
  with i assms(6) show ?thesis by (rule BankDetails_nulls)
qed

text \<open>
  C6, as stated: the line items' \<^verbatim>\<open>extra_details\<close> field is absent in the output when it
  is missing or null in the input. It fails: for a line item whose \<^verbatim>\<open>extra_details\<close> is
  null the record holds the empty string, which lines 430 and 431 put there.
\<close>

theorem null_extra_details_counterexample:
  "map_of example_full ''line_items''
     = Some (JArr [JObj (example_item ''Widget''), JObj (example_item ''Gadget'')])
   \<and> map_of (example_item ''Widget'') ''extra_details'' = Some JNull
   \<and> reconcile decimal_float (normalize_nulls (JObj example_full)) = Inr example_record
   \<and> LineItem.extra_details (InvoiceData.line_items example_record ! 0) = Some (Str [])"
  by code_simp

text \<open>
  C6, amended. When a record is returned, every optional string or number field of
  the record, at every level, whose input entry is null or a null synonym (or
  missing, for the document type) is absent in the output, never an empty string or
  zero. The line items' \<^verbatim>\<open>extra_details\<close> field is the exception: it is the empty
  string when its entry is missing, null or a null synonym; and the unstructured
  content is the empty string when its key is missing.
\<close>

theorem null_inputs_are_absent:
  assumes "reconcile lf (normalize_nulls (JObj d)) = Inr r"
  shows
    "nulls_absent d (InvoiceData_scalars r)
     \<and> (map_of d ''unstructured_content'' = None
          \<longrightarrow> InvoiceData.unstructured_content r = Some (Str []))
     \<and> (\<forall>m. map_of d ''invoice_metadata'' = Some (JObj m) \<longrightarrow>
          nulls_absent m (InvoiceMetadata_scalars (invoice_metadata r))
          \<and> (\<forall>vd. map_of m ''vendor_details'' = Some (JObj vd) \<longrightarrow>
                nulls_absent vd (VendorDetails_scalars (vendor_details (invoice_metadata r))))
          \<and> (\<forall>cd. map_of m ''customer_details'' = Some (JObj cd) \<longrightarrow>
                nulls_absent cd
                  (CustomerDetails_scalars (customer_details (invoice_metadata r)))))
     \<and> (\<forall>xs i it. map_of d ''line_items'' = Some (JArr xs) \<and> i < length xs \<and> xs ! i = JObj it
          \<longrightarrow> i < length (InvoiceData.line_items r)
              \<and> nulls_absent it (LineItem_scalars (InvoiceData.line_items r ! i))
              \<and> (null_input (map_of it ''extra_details'')
                   \<longrightarrow> LineItem.extra_details (InvoiceData.line_items r ! i) = Some (Str [])))
     \<and> (\<forall>t. map_of d ''totals'' = Some (JObj t) \<longrightarrow>
          nulls_absent t (Totals_scalars (InvoiceData.totals r)))
     \<and> (\<forall>p ps. map_of d ''payment_slip'' = Some (JObj p) \<and> InvoiceData.payment_slip r = Some ps
          \<longrightarrow> nulls_absent p (PaymentSlip_scalars ps)
              \<and> (\<forall>b bk. map_of p ''bank_details'' = Some (JObj b)
                      \<and> PaymentSlip.bank_details ps = Some bk
                    \<longrightarrow> nulls_absent b (BankDetails_scalars bk)))"
proof -
  have ok: "reconcile lf (JObj (normalized d)) = Inr r"
    using assms by (simp add: normalized_def)
  have sub: "map_of (normalized x) k = Some (JObj (normalized y))"
    if "map_of x k = Some (JObj y)" for x y k
    using that by (simp add: normalized_def map_of_map_value)
  have items: "map_of (normalized d) ''line_items'' = Some (JArr (map normalize_nulls xs))
      \<and> i < length (map normalize_nulls xs) \<and> map normalize_nulls xs ! i = JObj (normalized it)"
    if "map_of d ''line_items'' = Some (JArr xs)" "i < length xs" "xs ! i = JObj it"
    for xs i it
    using that by (simp add: normalized_def map_of_map_value)
  have root: "nulls_absent d (InvoiceData_scalars r)"
    by (rule nulls_absent_normalized) (rule root_nulls [OF ok])
  have uc: "InvoiceData.unstructured_content r = Some (Str [])"
    if "map_of d ''unstructured_content'' = None"
    using that by (intro root_unstructured [OF ok]) (simp add: normalized_lookup)
  have meta: "nulls_absent m (InvoiceMetadata_scalars (invoice_metadata r))"
    if "map_of d ''invoice_metadata'' = Some (JObj m)" for m
    by (rule nulls_absent_normalized) (rule metadata_nulls [OF ok sub [OF that]])
  have vend: "nulls_absent vd (VendorDetails_scalars (vendor_details (invoice_metadata r)))"
    if "map_of d ''invoice_metadata'' = Some (JObj m)"
      "map_of m ''vendor_details'' = Some (JObj vd)" for m vd
    by (rule nulls_absent_normalized)
       (rule vendor_nulls [OF ok sub [OF that(1)] sub [OF that(2)]])
  have cust: "nulls_absent cd (CustomerDetails_scalars (customer_details (invoice_metadata r)))"
    if "map_of d ''invoice_metadata'' = Some (JObj m)"
      "map_of m ''customer_details'' = Some (JObj cd)" for m cd
    by (rule nulls_absent_normalized)
       (rule customer_nulls [OF ok sub [OF that(1)] sub [OF that(2)]])
  have item: "i < length (InvoiceData.line_items r)
      \<and> nulls_absent it (LineItem_scalars (InvoiceData.line_items r ! i))
      \<and> (null_input (map_of it ''extra_details'')
           \<longrightarrow> LineItem.extra_details (InvoiceData.line_items r ! i) = Some (Str []))"
    if "map_of d ''line_items'' = Some (JArr xs)" "i < length xs" "xs ! i = JObj it"
    for xs i it
  proof (intro conjI impI)
    note n = items [OF that]
    note a = n [THEN conjunct1] and b = n [THEN conjunct2, THEN conjunct1]
      and c = n [THEN conjunct2, THEN conjunct2]
    from reconcile_line_item_at(1) [OF ok a b]
    show "i < length (InvoiceData.line_items r)" .
    show "nulls_absent it (LineItem_scalars (InvoiceData.line_items r ! i))"
      by (rule nulls_absent_normalized) (rule line_item_nulls(1) [OF ok a b c])
    assume "null_input (map_of it ''extra_details'')"
    then have "map_of (normalized it) ''extra_details'' = None
       \<or> map_of (normalized it) ''extra_details'' = Some JNull"
      by (cases "map_of it ''extra_details''") (auto simp: normalized_lookup)
    then show "LineItem.extra_details (InvoiceData.line_items r ! i) = Some (Str [])"
      by (rule line_item_nulls(2) [OF ok a b c])
  qed
  have tot: "nulls_absent t (Totals_scalars (InvoiceData.totals r))"
    if "map_of d ''totals'' = Some (JObj t)" for t
    by (rule nulls_absent_normalized) (rule totals_nulls [OF ok sub [OF that]])
  have slip: "nulls_absent p (PaymentSlip_scalars ps)"
    if "map_of d ''payment_slip'' = Some (JObj p)" "InvoiceData.payment_slip r = Some ps"
    for p ps
    by (rule nulls_absent_normalized) (rule payment_slip_nulls [OF ok sub [OF that(1)] that(2)])
  have bank: "nulls_absent b (BankDetails_scalars bk)"
    if "map_of d ''payment_slip'' = Some (JObj p)" "InvoiceData.payment_slip r = Some ps"
      "map_of p ''bank_details'' = Some (JObj b)" "PaymentSlip.bank_details ps = Some bk"
    for p ps b bk
    by (rule nulls_absent_normalized)
       (rule bank_details_nulls [OF ok sub [OF that(1)] that(2) sub [OF that(3)] that(4)])
  show ?thesis
    using root uc meta vend cust item tot slip bank by blast
qed

theorem null_inputs_are_absent_witness:
  "reconcile decimal_float (normalize_nulls (JObj example_full)) = Inr example_record
   \<and> nulls_absent example_full (InvoiceData_scalars example_record)
   \<and> map_of example_full ''unstructured_content'' = None
   \<and> InvoiceData.unstructured_content example_record = Some (Str [])
   \<and> map_of example_full ''invoice_metadata''
       = Some (JObj (example_metadata (JObj example_vendor)))
   \<and> nulls_absent (example_metadata (JObj example_vendor))
        (InvoiceMetadata_scalars (invoice_metadata example_record))
   \<and> map_of (example_metadata (JObj example_vendor)) ''vendor_details''
       = Some (JObj example_vendor)
   \<and> nulls_absent example_vendor
        (VendorDetails_scalars (vendor_details (invoice_metadata example_record)))
   \<and> map_of (example_metadata (JObj example_vendor)) ''customer_details''
       = Some (JObj example_customer)
   \<and> nulls_absent example_customer
        (CustomerDetails_scalars (customer_details (invoice_metadata example_record)))
   \<and> null_input (map_of example_customer ''contact'')
   \<and> str_out (CustomerDetails.contact (customer_details (invoice_metadata example_record)))
       = JNull
   \<and> map_of example_full ''line_items''
       = Some (JArr [JObj (example_item ''Widget''), JObj (example_item ''Gadget'')])
   \<and> nulls_absent (example_item ''Gadget'')
        (LineItem_scalars (InvoiceData.line_items example_record ! 1))
   \<and> null_input (map_of (example_item ''Gadget'') ''extra_details'')
   \<and> LineItem.extra_details (InvoiceData.line_items example_record ! 1) = Some (Str [])
   \<and> map_of example_full ''totals'' = Some (JObj example_totals)
   \<and> nulls_absent example_totals (Totals_scalars (InvoiceData.totals example_record))
   \<and> map_of example_full ''payment_slip'' = Some (JObj example_slip)
   \<and> InvoiceData.payment_slip example_record
       = Some (the (InvoiceData.payment_slip example_record))
   \<and> nulls_absent example_slip
        (PaymentSlip_scalars (the (InvoiceData.payment_slip example_record)))
   \<and> map_of example_slip ''bank_details'' = Some (JObj example_bank)
   \<and> PaymentSlip.bank_details (the (InvoiceData.payment_slip example_record))
       = Some (the (PaymentSlip.bank_details (the (InvoiceData.payment_slip example_record))))
   \<and> nulls_absent example_bank
        (BankDetails_scalars
          (the (PaymentSlip.bank_details (the (InvoiceData.payment_slip example_record)))))"
proof -
  note t = null_inputs_are_absent [OF example_reconciled]
  have hu: "map_of example_full ''unstructured_content'' = None"
    by code_simp
  have hm: "map_of example_full ''invoice_metadata''
      = Some (JObj (example_metadata (JObj example_vendor)))"
    by code_simp
  have hv: "map_of (example_metadata (JObj example_vendor)) ''vendor_details''
      = Some (JObj example_vendor)"
    by code_simp
  have hc: "map_of (example_metadata (JObj example_vendor)) ''customer_details''
      = Some (JObj example_customer)"
    by code_simp
  have hl: "map_of example_full ''line_items''
       = Some (JArr [JObj (example_item ''Widget''), JObj (example_item ''Gadget'')])
     \<and> 1 < length [JObj (example_item ''Widget''), JObj (example_item ''Gadget'')]
     \<and> [JObj (example_item ''Widget''), JObj (example_item ''Gadget'')] ! 1
          = JObj (example_item ''Gadget'')"
    by code_simp
  have ht: "map_of example_full ''totals'' = Some (JObj example_totals)"
    by code_simp
  have hp: "map_of example_full ''payment_slip'' = Some (JObj example_slip)
     \<and> InvoiceData.payment_slip example_record
        = Some (the (InvoiceData.payment_slip example_record))"
    by code_simp
  have hb: "map_of example_slip ''bank_details'' = Some (JObj example_bank)
     \<and> PaymentSlip.bank_details (the (InvoiceData.payment_slip example_record))
        = Some (the (PaymentSlip.bank_details (the (InvoiceData.payment_slip example_record))))"
    by code_simp
  have hn: "null_input (map_of example_customer ''contact'')
     \<and> null_input (map_of (example_item ''Gadget'') ''extra_details'')"
    by code_simp
  from t have c0: "nulls_absent example_full (InvoiceData_scalars example_record)"
    by blast
  from t hu have cu: "InvoiceData.unstructured_content example_record = Some (Str [])"
    by blast
  from t hm have c1: "nulls_absent (example_metadata (JObj example_vendor))
        (InvoiceMetadata_scalars (invoice_metadata example_record))"
    by blast
  from t hm hv have c2: "nulls_absent example_vendor
        (VendorDetails_scalars (vendor_details (invoice_metadata example_record)))"
    by blast
  from t hm hc have c3: "nulls_absent example_customer
        (CustomerDetails_scalars (customer_details (invoice_metadata example_record)))"
    by blast
  from c3 hn have c3': "str_out (CustomerDetails.contact
        (customer_details (invoice_metadata example_record))) = JNull"
    by (simp add: nulls_absent_def CustomerDetails_scalars_def)
  from t hl have c4: "nulls_absent (example_item ''Gadget'')
        (LineItem_scalars (InvoiceData.line_items example_record ! 1))
     \<and> (null_input (map_of (example_item ''Gadget'') ''extra_details'')
          \<longrightarrow> LineItem.extra_details (InvoiceData.line_items example_record ! 1)
                = Some (Str []))"
    by blast
  from t ht have c5: "nulls_absent example_totals
        (Totals_scalars (InvoiceData.totals example_record))"
    by blast
  from t hp have c6: "nulls_absent example_slip
        (PaymentSlip_scalars (the (InvoiceData.payment_slip example_record)))"
    by blast
  from t hp hb have c7: "nulls_absent example_bank
        (BankDetails_scalars
          (the (PaymentSlip.bank_details (the (InvoiceData.payment_slip example_record)))))"
    by blast
  from example_reconciled hu hm hv hc hl ht hp hb hn c0 cu c1 c2 c3 c3' c4 c5 c6 c7
  show ?thesis by simp
qed

end
